theory Spec2Isabelle
  imports Main "HOL-Library.Sublist"
begin

section \<open>The notebook \<open>Getting_Started_with_OpenQASM_on_Braket.ipynb\<close>\<close>

text \<open>
  The repository is one Jupyter notebook: markdown cells interleaved with code cells that
  define OpenQASM program texts as Python string literals and pass them to the Amazon
  Braket SDK. The development embeds the code cells as Python syntax trees, gives them an
  evaluator in which every library object is an uninterpreted symbolic value and every
  interaction with the outside (library call, attribute read, console, file) is an event
  of a trace, and reads the OpenQASM texts with a small line scanner.
\<close>

subsection \<open>The program texts (the triple-quoted literals of the code cells)\<close>

text \<open>
  Each literal is given line by line, every line with its newline character; the first
  entry is the newline that follows the opening \<^verbatim>\<open>"""\<close>.
\<close>

definition bell_qasm :: string where
  \<open>bell_qasm = concat
    [''\<newline>'',
     ''OPENQASM 3;\<newline>'',
     ''\<newline>'',
     ''qubit[2] q;\<newline>'',
     ''bit[2] c;\<newline>'',
     ''\<newline>'',
     ''h q[0];\<newline>'',
     ''cnot q[0], q[1];\<newline>'',
     ''\<newline>'',
     ''c = measure q;\<newline>'']\<close>

definition noisy_ghz3_program :: string where
  \<open>noisy_ghz3_program = concat
    [''\<newline>'',
     ''// noisy_ghz3.qasm\<newline>'',
     ''// Prepare a 3 noisy qubit GHZ state\<newline>'',
     ''OPENQASM 3;\<newline>'',
     ''\<newline>'',
     ''qubit[3] q;\<newline>'',
     ''bit[3] c;\<newline>'',
     ''\<newline>'',
     ''h q[0];\<newline>'',
     ''#pragma braket noise depolarizing(0.1) q[0]\<newline>'',
     ''cnot q[0], q[1];\<newline>'',
     ''#pragma braket noise depolarizing(0.1) q[0]\<newline>'',
     ''#pragma braket noise depolarizing(0.1) q[1]\<newline>'',
     ''cnot q[1], q[2];\<newline>'',
     ''#pragma braket noise depolarizing(0.1) q[0]\<newline>'',
     ''#pragma braket noise depolarizing(0.1) q[1]\<newline>'',
     ''\<newline>'',
     ''c = measure q;\<newline>'']\<close>

definition noisy_program_with_kraus_operators :: string where
  \<open>noisy_program_with_kraus_operators = concat
    [''\<newline>'',
     ''// noisy_program_with_kraus_operators\<newline>'',
     ''OPENQASM 3;\<newline>'',
     ''\<newline>'',
     ''qubit[2] q;\<newline>'',
     ''bit[2] c;\<newline>'',
     ''\<newline>'',
     ''h q[0];\<newline>'',
     ''#pragma braket noise kraus([[0.9486833, 0], [0, 0.9486833]], [[0, 0.31622777], [0.31622777, 0]]) q[0]\<newline>'',
     ''cnot q[1], q[2];\<newline>'',
     ''\<newline>'',
     ''c = measure q;\<newline>'']\<close>

definition program_with_unitary :: string where
  \<open>program_with_unitary = concat
    [''\<newline>'',
     ''// noisy_program_with_kraus_operators\<newline>'',
     ''OPENQASM 3;\<newline>'',
     ''\<newline>'',
     ''qubit q;\<newline>'',
     ''bit c;\<newline>'',
     ''\<newline>'',
     ''#pragma braket unitary([[0, -1im], [1im, 0]]) q\<newline>'',
     ''c = measure q;\<newline>'']\<close>

definition ghz_program_with_physical_qubits :: string where
  \<open>ghz_program_with_physical_qubits = concat
    [''\<newline>'',
     ''// Prepare a GHZ state\<newline>'',
     ''OPENQASM 3;\<newline>'',
     ''\<newline>'',
     ''bit[3] ro;\<newline>'',
     ''h $0;\<newline>'',
     ''cnot $0, $1;\<newline>'',
     ''cnot $1, $2;\<newline>'',
     ''ro[0] = measure $0;\<newline>'',
     ''ro[1] = measure $1;\<newline>'',
     ''ro[2] = measure $2;\<newline>'']\<close>

definition program_with_verbatim_box :: string where
  \<open>program_with_verbatim_box = concat
    [''\<newline>'',
     ''OPENQASM 3;\<newline>'',
     ''\<newline>'',
     ''bit[2] ro;\<newline>'',
     ''#pragma braket verbatim\<newline>'',
     ''box{\<newline>'',
     '' rx(3.141592653589793) $0;\<newline>'',
     '' rx(3.141592653589793) $0;\<newline>'',
     '' cz $0, $1;\<newline>'',
     ''}\<newline>'',
     ''ro[0] = measure $0;\<newline>'',
     ''ro[1] = measure $1;\<newline>'']\<close>

definition bell_with_result_type :: string where
  \<open>bell_with_result_type = concat
    [''\<newline>'',
     ''OPENQASM 3;\<newline>'',
     ''\<newline>'',
     ''qubit[2] q;\<newline>'',
     ''\<newline>'',
     ''#pragma braket result expectation x(q[0]) @ z(q[1])\<newline>'',
     ''#pragma braket result amplitude "00", "11"\<newline>'',
     ''h q[0];\<newline>'',
     ''cnot q[0], q[1];\<newline>'']\<close>

definition program_with_non_simultaneously_measurable_result_types :: string where
  \<open>program_with_non_simultaneously_measurable_result_types = concat
    [''\<newline>'',
     ''OPENQASM 3;\<newline>'',
     ''\<newline>'',
     ''qubit[2] q;\<newline>'',
     ''\<newline>'',
     ''h q[0];\<newline>'',
     ''cnot q[0], q[1];\<newline>'',
     ''\<newline>'',
     ''#pragma braket result expectation x(q[0]) @ z(q[1])\<newline>'',
     ''#pragma braket result expectation hermitian([[0, -1im], [1im, 0]]) q[0]\<newline>'']\<close>

subsection \<open>Python syntax of the code cells\<close>

text \<open>
  The constructors follow Python's \<^verbatim>\<open>ast\<close> module. A call holds its positional
  arguments and its keyword arguments; an f-string is a \<open>JoinedStr\<close> of string constants
  and \<open>FormattedValue\<close>s. The statement forms the notebook does not use
  (\<open>IfStmt\<close>, \<open>WhileStmt\<close>, \<open>TryStmt\<close>, \<open>Raise\<close>, \<open>Assert\<close>, \<open>FunctionDef\<close>,
  \<open>AsyncFunctionDef\<close>, \<open>ClassDef\<close>, \<open>Await\<close>, \<open>Lambda\<close>) are part of the type so that
  their absence is a property of the notebook and not of the embedding.
\<close>

datatype expr =
    Name string
  | Str string
  | IntLit int
  | BoolLit bool
  | FloatLit string
  | ListLit "expr list"
  | Attribute expr string
  | Subscript expr expr
  | Call expr "expr list" "(string \<times> expr) list"
  | BinOp expr string expr
  | JoinedStr "expr list"
  | FormattedValue expr string
  | Await expr
  | Lambda "string list" expr

datatype stmt =
    Import string "string option"
  | ImportFrom string "(string \<times> string option) list"
  | Assign expr expr
  | Expr expr
  | With expr "string option" "stmt list"
  | For string expr "stmt list"
  | IfStmt expr "stmt list" "stmt list"
  | WhileStmt expr "stmt list"
  | TryStmt "stmt list" "stmt list" "stmt list"
  | Raise expr
  | Assert expr
  | FunctionDef string "string list" "stmt list"
  | AsyncFunctionDef string "string list" "stmt list"
  | ClassDef string "expr list" "stmt list"

text \<open>
  A cell is markdown (only its id is kept: prose is not code) or code with its id, its
  recorded execution count and its statements. Comment lines are not statements.
\<close>

datatype cell =
    Markdown string
  | Code string nat "stmt list"

subsection \<open>The notebook\<close>

text \<open>The repeated subscript \<^verbatim>\<open>sv1.properties.action['braket.ir.openqasm.program']\<close>.\<close>

definition sv1_openqasm_action :: expr where
  "sv1_openqasm_action =
     Subscript (Attribute (Attribute (Name ''sv1'') ''properties'') ''action'')
       (Str ''braket.ir.openqasm.program'')"

definition OpenQASMProgram_of :: "string \<Rightarrow> expr" where
  "OpenQASMProgram_of v = Call (Name ''OpenQASMProgram'') [] [(''source'', Name v)]"

definition charges_note :: string where
  "charges_note = ''Note: Charges shown are estimates based on your Amazon Braket simulator and quantum processing unit (QPU) task usage. Estimated charges shown may differ from your actual charges. Estimated charges do not factor in any discounts or credits, and you may experience additional charges based on your use of other services such as Amazon Elastic Compute Cloud (Amazon EC2).''"

definition cell_531458bc :: cell where
  "cell_531458bc =
     Code ''531458bc'' 1
     [ImportFrom ''braket.tracking'' [(''Tracker'', None)],
      Assign (Name ''t'') (Call (Attribute (Call (Name ''Tracker'') [] []) ''start'') [] [])]"

definition cell_74f36023 :: cell where
  "cell_74f36023 =
     Code ''74f36023'' 2
     [Assign (Name ''bell_qasm'') (Str bell_qasm)]"

definition cell_8fb7142f :: cell where
  "cell_8fb7142f =
     Code ''8fb7142f'' 3
     [ImportFrom ''braket.ir.jaqcd'' [(''CNot'', None), (''H'', None), (''Program'', None)],
      Assign (Name ''program'')
        (Call (Name ''Program'') []
           [(''instructions'',
             ListLit [Call (Name ''H'') [] [(''target'', IntLit 0)],
                      Call (Name ''CNot'') [] [(''control'', IntLit 0), (''target'', IntLit 1)]])]),
      Expr (Call (Name ''print'')
              [Call (Attribute (Name ''program'') ''json'') [] [(''indent'', IntLit 2)]] [])]"

definition cell_5044bf8c :: cell where
  "cell_5044bf8c =
     Code ''5044bf8c'' 4
     [Import ''boto3'' None,
      Import ''json'' None,
      ImportFrom ''braket.aws'' [(''AwsDevice'', None)]]"

definition cell_13f35368 :: cell where
  "cell_13f35368 =
     Code ''13f35368'' 5
     [ImportFrom ''braket.ir.openqasm'' [(''Program'', Some ''OpenQASMProgram'')],
      Assign (Name ''sv1'')
        (Call (Name ''AwsDevice'') [Str ''arn:aws:braket:::device/quantum-simulator/amazon/sv1''] []),
      Assign (Name ''bell_program'') (OpenQASMProgram_of ''bell_qasm''),
      Assign (Name ''bell_task'')
        (Call (Attribute (Name ''sv1'') ''run'') [Name ''bell_program''] [(''shots'', IntLit 100)])]"

definition cell_1cc596be :: cell where
  "cell_1cc596be =
     Code ''1cc596be'' 6
     [With (Call (Name ''open'') [Str ''bell.qasm'', Str ''w''] []) (Some ''f'')
        [Expr (Call (Attribute (Name ''f'') ''write'') [Name ''bell_qasm''] [])]]"

definition cell_a7951803 :: cell where
  "cell_a7951803 =
     Code ''a7951803'' 7
     [Expr (Attribute sv1_openqasm_action ''supportedOperations'')]"

definition cell_05e224e3 :: cell where
  "cell_05e224e3 =
     Code ''05e224e3'' 8
     [Expr (Attribute sv1_openqasm_action ''supportedPragmas'')]"

definition cell_f123f0ab :: cell where
  "cell_f123f0ab =
     Code ''f123f0ab'' 9
     [Expr (Attribute sv1_openqasm_action ''forbiddenPragmas'')]"

definition cell_9ee3dfb9 :: cell where
  "cell_9ee3dfb9 =
     Code ''9ee3dfb9'' 10
     [Assign (Name ''noisy_ghz3_program'') (Str noisy_ghz3_program)]"

definition cell_2755f581 :: cell where
  "cell_2755f581 =
     Code ''2755f581'' 11
     [ImportFrom ''braket.circuits''
        [(''Circuit'', None), (''Observable'', None), (''Gate'', None), (''Noise'', None)],
      Assign (Name ''noisy_ghz3_circ'')
        (Call (Attribute
           (Call (Attribute
              (Call (Attribute (Call (Name ''Circuit'') [] []) ''h'') [IntLit 0] [])
              ''cnot'') [IntLit 0, IntLit 1] [])
           ''cnot'') [IntLit 1, IntLit 2] []),
      Assign (Name ''noise'')
        (Call (Attribute (Name ''Noise'') ''Depolarizing'') [] [(''probability'', FloatLit ''0.1'')]),
      Expr (Call (Attribute (Name ''noisy_ghz3_circ'') ''apply_gate_noise'') [Name ''noise''] [])]"

definition cell_138d5edd :: cell where
  "cell_138d5edd =
     Code ''138d5edd'' 12
     [Assign (Name ''dm1'')
        (Call (Name ''AwsDevice'') [Str ''arn:aws:braket:::device/quantum-simulator/amazon/dm1''] []),
      Assign (Name ''noisy_ghz3_circ_task'')
        (Call (Attribute (Name ''dm1'') ''run'') [Name ''noisy_ghz3_circ''] [(''shots'', IntLit 10)]),
      Assign (Name ''noisy_ghz3_program_task'')
        (Call (Attribute (Name ''dm1'') ''run'')
           [OpenQASMProgram_of ''noisy_ghz3_program''] [(''shots'', IntLit 10)])]"

definition cell_2a21c9e7 :: cell where
  "cell_2a21c9e7 =
     Code ''2a21c9e7'' 13
     [Assign (Name ''sdk_result'')
        (Call (Attribute (Name ''noisy_ghz3_circ_task'') ''result'') [] []),
      Assign (Name ''openqasm_result'')
        (Call (Attribute (Name ''noisy_ghz3_program_task'') ''result'') [] []),
      Assign (Name ''sdk_measurement'') (Attribute (Name ''sdk_result'') ''measurement_counts''),
      Assign (Name ''openqasm_measurement'')
        (Attribute (Name ''openqasm_result'') ''measurement_counts''),
      Expr (Call (Name ''print'') [Str ''sdk measurement results:'', Name ''sdk_measurement''] []),
      Expr (Call (Name ''print'')
              [Str ''openqasm measurement results:'', Name ''openqasm_measurement''] [])]"

definition cell_26366ddd :: cell where
  "cell_26366ddd =
     Code ''26366ddd'' 14
     [Assign (Name ''noisy_program_with_kraus_operators'') (Str noisy_program_with_kraus_operators)]"

definition cell_d1f97f3f :: cell where
  "cell_d1f97f3f =
     Code ''d1f97f3f'' 15
     [Assign (Name ''program_with_unitary'') (Str program_with_unitary)]"

definition cell_4461b1a8 :: cell where
  "cell_4461b1a8 =
     Code ''4461b1a8'' 16
     [Assign (Name ''unitary_task'')
        (Call (Attribute (Name ''dm1'') ''run'')
           [OpenQASMProgram_of ''program_with_unitary''] [(''shots'', IntLit 10)]),
      Assign (Name ''unitary_result'') (Call (Attribute (Name ''unitary_task'') ''result'') [] []),
      Expr (Call (Name ''print'') [Attribute (Name ''unitary_result'') ''measurement_counts''] [])]"

definition cell_3d211790 :: cell where
  "cell_3d211790 =
     Code ''3d211790'' 17
     [Assign (Name ''ghz_program_with_physical_qubits'') (Str ghz_program_with_physical_qubits)]"

definition cell_9c42efc5 :: cell where
  "cell_9c42efc5 =
     Code ''9c42efc5'' 19
     [Assign (Name ''aspen_m1'')
        (Call (Name ''AwsDevice'') [Str ''arn:aws:braket:us-west-1::device/qpu/rigetti/Aspen-M-1''] []),
      Assign (Name ''ghz_program_with_physical_qubits_task'')
        (Call (Attribute (Name ''aspen_m1'') ''run'')
           [OpenQASMProgram_of ''ghz_program_with_physical_qubits''] [(''shots'', IntLit 10)]),
      Assign (Name ''measured_qubits'')
        (Attribute
           (Call (Attribute (Name ''ghz_program_with_physical_qubits_task'') ''result'') [] [])
           ''measured_qubits''),
      Expr (Call (Name ''print'') [Str ''Measured qubits:'', Name ''measured_qubits''] [])]"

definition cell_0ca70478 :: cell where
  "cell_0ca70478 =
     Code ''0ca70478'' 20
     [Assign (Name ''program_with_verbatim_box'') (Str program_with_verbatim_box)]"

definition cell_92ab8cf7 :: cell where
  "cell_92ab8cf7 =
     Code ''92ab8cf7'' 21
     [Expr (Call (Name ''print'')
              [Str ''The native gates for the'', Attribute (Name ''aspen_m1'') ''name'',
               Str ''device are:''] []),
      For ''gate''
        (Attribute (Attribute (Attribute (Name ''aspen_m1'') ''properties'') ''paradigm'')
           ''nativeGateSet'')
        [Expr (Call (Name ''print'') [Name ''gate''] [])]]"

definition cell_d5f76be2 :: cell where
  "cell_d5f76be2 =
     Code ''d5f76be2'' 22
     [Import ''networkx'' (Some ''nx''),
      Expr (Call (Name ''print'')
              [Attribute
                 (Attribute
                    (Attribute (Attribute (Name ''aspen_m1'') ''properties'') ''paradigm'')
                    ''connectivity'')
                 ''connectivityGraph''] []),
      Expr (Call (Attribute (Name ''nx'') ''draw_kamada_kawai'')
              [Attribute (Name ''aspen_m1'') ''topology_graph'']
              [(''with_labels'', BoolLit True), (''font_color'', Str ''white'')])]"

definition cell_15af3a32 :: cell where
  "cell_15af3a32 =
     Code ''15af3a32'' 23
     [Assign (Name ''verbatim_task'')
        (Call (Attribute (Name ''aspen_m1'') ''run'')
           [OpenQASMProgram_of ''program_with_verbatim_box''] [(''shots'', IntLit 10)]),
      Assign (Name ''verbatim_result'') (Call (Attribute (Name ''verbatim_task'') ''result'') [] []),
      Assign (Name ''meta'')
        (Attribute (Attribute (Name ''verbatim_result'') ''additional_metadata'')
           ''rigettiMetadata''),
      Expr (Call (Name ''print'') [Attribute (Name ''meta'') ''compiledProgram''] [])]"

definition cell_7f348ffd :: cell where
  "cell_7f348ffd =
     Code ''7f348ffd'' 24
     [For ''iter'' (Attribute sv1_openqasm_action ''supportedResultTypes'')
        [Expr (Call (Name ''print'') [Name ''iter''] [])]]"

definition cell_0f4a78a9 :: cell where
  "cell_0f4a78a9 =
     Code ''0f4a78a9'' 25
     [Assign (Name ''bell_with_result_type'') (Str bell_with_result_type)]"

definition cell_2b7aa936 :: cell where
  "cell_2b7aa936 =
     Code ''2b7aa936'' 26
     [Assign (Name ''bell_result_types_task'')
        (Call (Attribute (Name ''sv1'') ''run'')
           [OpenQASMProgram_of ''bell_with_result_type''] [(''shots'', IntLit 0)]),
      Assign (Name ''bell_result'')
        (Call (Attribute (Name ''bell_result_types_task'') ''result'') [] []),
      Assign (Name ''values'') (Attribute (Name ''bell_result'') ''values''),
      Expr (Call (Name ''print'') [Name ''values''] [])]"

definition cell_aa1174eb :: cell where
  "cell_aa1174eb =
     Code ''aa1174eb'' 27
     [Assign (Name ''program_with_non_simultaneously_measurable_result_types'')
        (Str program_with_non_simultaneously_measurable_result_types)]"

definition cell_61317ba8 :: cell where
  "cell_61317ba8 =
     Code ''61317ba8'' 28
     [Expr (Call (Name ''print'') [Str ''Task Summary''] []),
      Expr (Call (Name ''print'')
              [Call (Attribute (Name ''t'') ''quantum_tasks_statistics'') [] []] []),
      Expr (Call (Name ''print'') [Str charges_note] []),
      Expr (Call (Name ''print'')
              [JoinedStr
                 [Str ''Estimated cost to run this example: '',
                  FormattedValue
                    (BinOp (Call (Attribute (Name ''t'') ''qpu_tasks_cost'') [] []) ''+''
                           (Call (Attribute (Name ''t'') ''simulator_tasks_cost'') [] []))
                    ''.2f'',
                  Str '' USD'']] [])]"

text \<open>The cells in the order of the file; a code cell is named by its id.\<close>

definition notebook :: "cell list" where
  "notebook =
   [Markdown ''eaa17474'', cell_531458bc, Markdown ''ef155419'', Markdown ''4766b3c5'',
    cell_74f36023, Markdown ''d6be0671'', cell_8fb7142f, Markdown ''d5cdfcb9'',
    Markdown ''da37dad5'', cell_5044bf8c, Markdown ''8b4aeea1'', cell_13f35368,
    Markdown ''7d967fd5'', cell_1cc596be, Markdown ''da2fb85b'', Markdown ''3ba6b8b5'',
    cell_a7951803, cell_05e224e3, cell_f123f0ab, Markdown ''337a591f'',
    Markdown ''0f0f17d2'', cell_9ee3dfb9, Markdown ''3123b95b'', cell_2755f581,
    Markdown ''f57bd2c8'', cell_138d5edd, cell_2a21c9e7, Markdown ''f2f57bb0'',
    cell_26366ddd, Markdown ''4bacd368'', Markdown ''b432a5cc'', cell_d1f97f3f,
    Markdown ''60bd5667'', cell_4461b1a8, Markdown ''792214cc'', Markdown ''e1a0b186'',
    cell_3d211790, Markdown ''137f8048'', cell_9c42efc5, Markdown ''634e2d1b'',
    Markdown ''5105dd8d'', Markdown ''825dd0de'', cell_0ca70478, Markdown ''01e8ca7e'',
    cell_92ab8cf7, Markdown ''2d71b5af'', cell_d5f76be2, Markdown ''f3d0d6a8'',
    cell_15af3a32, Markdown ''cb577e18'', Markdown ''2f367cc3'', cell_7f348ffd,
    Markdown ''f57fe7f7'', cell_0f4a78a9, Markdown ''ef643d36'', cell_2b7aa936,
    Markdown ''0ce5c48b'', cell_aa1174eb, Markdown ''291b3c4e'', Markdown ''e07092a6'',
    cell_61317ba8]"

subsection \<open>Walking the syntax\<close>

fun subexprs :: "expr \<Rightarrow> expr list" where
  "subexprs (Name x) = [Name x]"
| "subexprs (Str s) = [Str s]"
| "subexprs (IntLit i) = [IntLit i]"
| "subexprs (BoolLit b) = [BoolLit b]"
| "subexprs (FloatLit f) = [FloatLit f]"
| "subexprs (ListLit es) = ListLit es # concat (map subexprs es)"
| "subexprs (Attribute e a) = Attribute e a # subexprs e"
| "subexprs (Subscript e i) = Subscript e i # subexprs e @ subexprs i"
| "subexprs (Call f as ks) =
     Call f as ks # subexprs f @ concat (map subexprs as) @ concat (map (\<lambda>k. subexprs (snd k)) ks)"
| "subexprs (BinOp l opr r) = BinOp l opr r # subexprs l @ subexprs r"
| "subexprs (JoinedStr es) = JoinedStr es # concat (map subexprs es)"
| "subexprs (FormattedValue e f) = FormattedValue e f # subexprs e"
| "subexprs (Await e) = Await e # subexprs e"
| "subexprs (Lambda xs e) = Lambda xs e # subexprs e"

text \<open>A statement with every statement nested in its bodies, in source order.\<close>

fun substmts :: "stmt \<Rightarrow> stmt list" where
  "substmts (With e x body) = With e x body # concat (map substmts body)"
| "substmts (For x e body) = For x e body # concat (map substmts body)"
| "substmts (IfStmt e a b) = IfStmt e a b # concat (map substmts a) @ concat (map substmts b)"
| "substmts (WhileStmt e body) = WhileStmt e body # concat (map substmts body)"
| "substmts (TryStmt body hs fin) =
     TryStmt body hs fin # concat (map substmts body) @ concat (map substmts hs)
       @ concat (map substmts fin)"
| "substmts (FunctionDef f xs body) = FunctionDef f xs body # concat (map substmts body)"
| "substmts (AsyncFunctionDef f xs body) = AsyncFunctionDef f xs body # concat (map substmts body)"
| "substmts (ClassDef c bs body) = ClassDef c bs body # concat (map substmts body)"
| "substmts s = [s]"

text \<open>
  The expressions a statement evaluates itself (not those of nested statements). The
  target of an assignment to a plain name is a binding, not an evaluated expression.
\<close>

fun exprs_of_stmt :: "stmt \<Rightarrow> expr list" where
  "exprs_of_stmt (Assign (Name x) v) = [v]"
| "exprs_of_stmt (Assign t v) = [t, v]"
| "exprs_of_stmt (Expr e) = [e]"
| "exprs_of_stmt (With e x body) = [e]"
| "exprs_of_stmt (For x e body) = [e]"
| "exprs_of_stmt (IfStmt e a b) = [e]"
| "exprs_of_stmt (WhileStmt e body) = [e]"
| "exprs_of_stmt (Raise e) = [e]"
| "exprs_of_stmt (Assert e) = [e]"
| "exprs_of_stmt (ClassDef c bs body) = bs"
| "exprs_of_stmt s = []"

fun stmts_of_cell :: "cell \<Rightarrow> stmt list" where
  "stmts_of_cell (Markdown i) = []"
| "stmts_of_cell (Code i n ss) = ss"

definition top_level :: "cell list \<Rightarrow> stmt list" where
  "top_level nb = concat (map stmts_of_cell nb)"

definition all_stmts :: "cell list \<Rightarrow> stmt list" where
  "all_stmts nb = concat (map substmts (top_level nb))"

definition all_exprs :: "cell list \<Rightarrow> expr list" where
  "all_exprs nb = concat (map subexprs (concat (map exprs_of_stmt (all_stmts nb))))"

text \<open>The names an expression list reads.\<close>

fun name_of :: "expr \<Rightarrow> string list" where
  "name_of (Name x) = [x]"
| "name_of e = []"

definition loaded_names :: "cell list \<Rightarrow> string list" where
  "loaded_names nb = concat (map name_of (all_exprs nb))"

text \<open>The string literals the notebook binds to a variable: the program texts.\<close>

fun assigned_text :: "stmt \<Rightarrow> (string \<times> string) list" where
  "assigned_text (Assign (Name x) (Str s)) = [(x, s)]"
| "assigned_text s = []"

definition program_texts :: "cell list \<Rightarrow> (string \<times> string) list" where
  "program_texts nb = concat (map assigned_text (all_stmts nb))"

subsection \<open>Reading the OpenQASM texts\<close>

text \<open>
  The notebook leaves parsing to the service. To state what a program text says, the
  development reads it line by line with a scanner for exactly the statement forms the
  eight texts use: comments, the version line, register declarations, gate applications,
  the braket pragmas, measurements and the \<open>box\<close> braces. A line of no known form scans
  to \<open>Unknown\<close>.
\<close>

fun starts_with :: "string \<Rightarrow> string \<Rightarrow> bool" where
  "starts_with [] s = True"
| "starts_with (p # ps) [] = False"
| "starts_with (p # ps) (c # cs) = (p = c \<and> starts_with ps cs)"

fun contains :: "string \<Rightarrow> string \<Rightarrow> bool" where
  "contains p [] = (p = [])"
| "contains p (c # cs) = (starts_with p (c # cs) \<or> contains p cs)"

fun split_at :: "char \<Rightarrow> string \<Rightarrow> string list" where
  "split_at d [] = [[]]"
| "split_at d (c # cs) =
     (if c = d then [] # split_at d cs
      else (case split_at d cs of [] \<Rightarrow> [[c]] | l # ls \<Rightarrow> (c # l) # ls))"

definition lines_of :: "string \<Rightarrow> string list" where
  "lines_of s = split_at (CHR 0x0A) s"

definition is_space :: "char \<Rightarrow> bool" where
  "is_space c = (c = CHR '' '')"

definition trim :: "string \<Rightarrow> string" where
  "trim s = rev (dropWhile is_space (rev (dropWhile is_space s)))"

definition is_digit :: "char \<Rightarrow> bool" where
  "is_digit c = (c \<in> set ''0123456789'')"

definition is_ident_char :: "char \<Rightarrow> bool" where
  "is_ident_char c =
     (c \<in> set ''abcdefghijklmnopqrstuvwxyzABCDEFGHIJKLMNOPQRSTUVWXYZ0123456789_'')"

definition digit_value :: "char \<Rightarrow> nat" where
  "digit_value c = of_char c - 48"

text \<open>A non-empty string of decimal digits as a number; anything else is \<open>None\<close>.\<close>

definition nat_of_digits :: "string \<Rightarrow> nat option" where
  "nat_of_digits s =
     (if s \<noteq> [] \<and> list_all is_digit s
      then Some (foldl (\<lambda>n c. 10 * n + digit_value c) 0 s) else None)"

datatype operand = Indexed string nat | Whole string | Physical nat

text \<open>An operand is \<^verbatim>\<open>$3\<close>, \<^verbatim>\<open>q[3]\<close> or \<^verbatim>\<open>q\<close>.\<close>

definition scan_operand :: "string \<Rightarrow> operand option" where
  "scan_operand s =
     (case trim s of
        [] \<Rightarrow> None
      | c # cs \<Rightarrow>
          if c = CHR ''$'' then map_option Physical (nat_of_digits cs)
          else
            (let name = takeWhile is_ident_char (c # cs);
                 rest = dropWhile is_ident_char (c # cs)
             in if name = [] then None
                else if rest = [] then Some (Whole name)
                else if hd rest = CHR ''['' \<and> last rest = CHR '']''
                then map_option (Indexed name) (nat_of_digits (butlast (tl rest)))
                else None))"

text \<open>All operands of a comma-separated list, or \<open>None\<close> when one does not scan.\<close>

fun all_some :: "'a option list \<Rightarrow> 'a list option" where
  "all_some [] = Some []"
| "all_some (None # xs) = None"
| "all_some (Some x # xs) = map_option ((#) x) (all_some xs)"

definition scan_operands :: "string \<Rightarrow> operand list option" where
  "scan_operands s = all_some (map scan_operand (split_at (CHR '','') s))"

text \<open>
  The text up to the parenthesis that closes an open one (nested parentheses counted),
  and the text after it.
\<close>

fun until_close :: "nat \<Rightarrow> string \<Rightarrow> string \<times> string" where
  "until_close d [] = ([], [])"
| "until_close d (c # cs) =
     (if c = CHR '')'' then
        (case d of 0 \<Rightarrow> ([], cs)
         | Suc d' \<Rightarrow> (let r = until_close d' cs in (c # fst r, snd r)))
      else if c = CHR ''('' then (let r = until_close (Suc d) cs in (c # fst r, snd r))
      else (let r = until_close d cs in (c # fst r, snd r)))"

text \<open>
  \<^verbatim>\<open>name(params) operands\<close> or \<^verbatim>\<open>name operands\<close>: the name, the parameter text
  (empty when there is none) and the operand text.
\<close>

definition scan_application :: "string \<Rightarrow> string \<times> string \<times> string" where
  "scan_application s =
     (let name = takeWhile is_ident_char s; rest = dropWhile is_ident_char s
      in if rest \<noteq> [] \<and> hd rest = CHR ''(''
         then (let r = until_close 0 (tl rest) in (name, fst r, snd r))
         else (name, [], rest))"

datatype qasm_line =
    Blank
  | Comment
  | Version
  | QubitDecl string "nat option"
  | BitDecl string "nat option"
  | Gate string string "operand list"
  | NoisePragma string string "operand list"
  | UnitaryPragma string "operand list"
  | VerbatimPragma
  | ResultPragma string
  | Measure string operand
  | BoxOpen
  | BoxClose
  | Unknown string

text \<open>A declaration \<^verbatim>\<open>qubit[3] q\<close> or \<^verbatim>\<open>qubit q\<close> (the text after the keyword).\<close>

definition scan_decl :: "string \<Rightarrow> (string \<times> nat option) option" where
  "scan_decl s =
     (case s of
        [] \<Rightarrow> None
      | c # cs \<Rightarrow>
          if c = CHR ''['' then
            (let size_text = takeWhile (\<lambda>x. x \<noteq> CHR '']'') cs;
                 name = trim (drop 1 (dropWhile (\<lambda>x. x \<noteq> CHR '']'') cs))
             in (case nat_of_digits size_text of
                   None \<Rightarrow> None
                 | Some n \<Rightarrow> if name \<noteq> [] \<and> list_all is_ident_char name
                             then Some (name, Some n) else None))
          else
            (let name = trim (c # cs)
             in if c = CHR '' '' \<and> name \<noteq> [] \<and> list_all is_ident_char name
                then Some (name, None) else None))"

definition scan_pragma :: "string \<Rightarrow> qasm_line" where
  "scan_pragma s =
     (if s = ''verbatim'' then VerbatimPragma
      else if starts_with ''result '' s then ResultPragma (drop 7 s)
      else if starts_with ''noise '' s then
        (case scan_application (drop 6 s) of
           (name, params, rest) \<Rightarrow>
             (case scan_operands rest of
                None \<Rightarrow> Unknown s
              | Some ops \<Rightarrow> NoisePragma name params ops))
      else if starts_with ''unitary('' s then
        (case scan_application s of
           (name, params, rest) \<Rightarrow>
             (case scan_operands rest of
                None \<Rightarrow> Unknown s
              | Some ops \<Rightarrow> UnitaryPragma params ops))
      else Unknown s)"

text \<open>A statement, without its closing semicolon.\<close>

definition scan_statement :: "string \<Rightarrow> qasm_line" where
  "scan_statement s =
     (if starts_with ''OPENQASM '' s then Version
      else if starts_with ''qubit'' s \<and> scan_decl (drop 5 s) \<noteq> None
      then (case scan_decl (drop 5 s) of Some (n, k) \<Rightarrow> QubitDecl n k | None \<Rightarrow> Unknown s)
      else if starts_with ''bit'' s \<and> scan_decl (drop 3 s) \<noteq> None
      then (case scan_decl (drop 3 s) of Some (n, k) \<Rightarrow> BitDecl n k | None \<Rightarrow> Unknown s)
      else if contains '' = measure '' s then
        (let lhs = takeWhile (\<lambda>x. x \<noteq> CHR '' '') s;
             rhs = drop (length lhs + 11) s
         in (case scan_operand rhs of None \<Rightarrow> Unknown s | Some q \<Rightarrow> Measure lhs q))
      else
        (case scan_application s of
           (name, params, rest) \<Rightarrow>
             (case scan_operands rest of
                None \<Rightarrow> Unknown s
              | Some ops \<Rightarrow> if name = [] then Unknown s else Gate name params ops)))"

definition scan_line :: "string \<Rightarrow> qasm_line" where
  "scan_line l =
     (let s = trim l
      in if s = [] then Blank
         else if starts_with ''//'' s then Comment
         else if starts_with ''#pragma braket '' s then scan_pragma (drop 15 s)
         else if s = ''box{'' then BoxOpen
         else if s = ''}'' then BoxClose
         else if last s = CHR '';'' then scan_statement (butlast s)
         else Unknown s)"

definition scan_program :: "string \<Rightarrow> qasm_line list" where
  "scan_program text = map scan_line (lines_of text)"

subsection \<open>What a program text declares and applies\<close>

definition qubit_registers :: "string \<Rightarrow> (string \<times> nat option) list" where
  "qubit_registers text =
     concat (map (\<lambda>l. case l of QubitDecl n k \<Rightarrow> [(n, k)] | _ \<Rightarrow> []) (scan_program text))"

fun line_operands :: "qasm_line \<Rightarrow> operand list" where
  "line_operands (Gate g p ops) = ops"
| "line_operands (NoisePragma n p ops) = ops"
| "line_operands (UnitaryPragma p ops) = ops"
| "line_operands (Measure c q) = [q]"
| "line_operands l = []"

definition operands_of :: "string \<Rightarrow> operand list" where
  "operands_of text = concat (map line_operands (scan_program text))"

text \<open>
  An indexed operand is in bounds when its register is declared with a size above the
  index, a whole register when it is declared; a physical qubit names no register.
\<close>

fun in_bounds :: "(string \<times> nat option) list \<Rightarrow> operand \<Rightarrow> bool" where
  "in_bounds regs (Indexed r i) = (case map_of regs r of Some (Some n) \<Rightarrow> i < n | _ \<Rightarrow> False)"
| "in_bounds regs (Whole r) = (map_of regs r \<noteq> None)"
| "in_bounds regs (Physical i) = True"

definition out_of_bounds :: "string \<Rightarrow> operand list" where
  "out_of_bounds text =
     filter (\<lambda>q. \<not> in_bounds (qubit_registers text) q) (operands_of text)"

subsection \<open>The vendor extensions a text uses\<close>

datatype feature =
  NoiseSimulation | UnitaryInjection | QubitRewiring | VerbatimCompilation | ResultTypes

fun is_physical :: "operand \<Rightarrow> bool" where
  "is_physical (Physical i) = True"
| "is_physical q = False"

text \<open>
  A line shows a feature when it is the feature's braket pragma; qubit rewiring is
  shown by a physical-qubit operand (\<^verbatim>\<open>$0\<close>).
\<close>

fun line_shows :: "feature \<Rightarrow> qasm_line \<Rightarrow> bool" where
  "line_shows NoiseSimulation l = (case l of NoisePragma n p ops \<Rightarrow> True | _ \<Rightarrow> False)"
| "line_shows UnitaryInjection l = (case l of UnitaryPragma p ops \<Rightarrow> True | _ \<Rightarrow> False)"
| "line_shows QubitRewiring l = list_ex is_physical (line_operands l)"
| "line_shows VerbatimCompilation l = (l = VerbatimPragma)"
| "line_shows ResultTypes l = (case l of ResultPragma r \<Rightarrow> True | _ \<Rightarrow> False)"

definition demonstrates :: "feature \<Rightarrow> string \<Rightarrow> bool" where
  "demonstrates f text = list_ex (line_shows f) (scan_program text)"

subsection \<open>Circuits: the SDK's instruction lists\<close>

text \<open>
  The Braket SDK is not part of the repository, but the code cell \<open>2755f581\<close> keeps the
  value it printed for \<^verbatim>\<open>noisy_ghz3_circ\<close>: a list of instructions, each an operator
  with its target qubits. \<open>noisy_ghz3_circ_output\<close> is that recorded value.
\<close>

datatype operator = H | CNot | Depolarizing string

datatype instruction = Instruction operator "nat list"

definition noisy_ghz3_circ_output :: "instruction list" where
  "noisy_ghz3_circ_output =
     [Instruction H [0],
      Instruction (Depolarizing ''0.1'') [0],
      Instruction CNot [0, 1],
      Instruction (Depolarizing ''0.1'') [0],
      Instruction (Depolarizing ''0.1'') [1],
      Instruction CNot [1, 2],
      Instruction (Depolarizing ''0.1'') [1],
      Instruction (Depolarizing ''0.1'') [2]]"

text \<open>
  The three statements of the cell, with the SDK calls as the notebook describes them:
  \<^verbatim>\<open>h\<close> and \<^verbatim>\<open>cnot\<close> append a gate, and \<^verbatim>\<open>apply_gate_noise\<close> puts the noise
  channel after every gate, once on each of the gate's target qubits, in ascending
  order. Only a circuit with at least one gate is meant, as the cell's is. The lemma
  \<open>noisy_ghz3_circ_is_output\<close> below checks this reading against the recorded value.
\<close>

definition Circuit :: "instruction list" where
  "Circuit = []"

definition h :: "nat \<Rightarrow> instruction list \<Rightarrow> instruction list" where
  "h q circ = circ @ [Instruction H [q]]"

definition cnot :: "nat \<Rightarrow> nat \<Rightarrow> instruction list \<Rightarrow> instruction list" where
  "cnot c t circ = circ @ [Instruction CNot [c, t]]"

fun is_gate :: "instruction \<Rightarrow> bool" where
  "is_gate (Instruction (Depolarizing p) qs) = False"
| "is_gate i = True"

fun with_gate_noise :: "operator \<Rightarrow> instruction \<Rightarrow> instruction list" where
  "with_gate_noise noise (Instruction g qs) =
     (if is_gate (Instruction g qs)
      then Instruction g qs # map (\<lambda>q. Instruction noise [q]) (sort qs)
      else [Instruction g qs])"

definition apply_gate_noise :: "operator \<Rightarrow> instruction list \<Rightarrow> instruction list" where
  "apply_gate_noise noise circ = concat (map (with_gate_noise noise) circ)"

definition noisy_ghz3_circ :: "instruction list" where
  "noisy_ghz3_circ = apply_gate_noise (Depolarizing ''0.1'') (cnot 1 2 (cnot 0 1 (h 0 Circuit)))"

text \<open>
  The instruction list an OpenQASM text denotes: its gate applications and noise pragmas
  in order, on the qubit indices of their operands. Declarations, comments and the final
  measurement add no instruction; any other line makes the text unreadable (\<open>None\<close>).
\<close>

fun qubit_index :: "operand \<Rightarrow> nat option" where
  "qubit_index (Indexed r i) = Some i"
| "qubit_index (Physical i) = Some i"
| "qubit_index (Whole r) = None"

definition gate_operator :: "string \<Rightarrow> string \<Rightarrow> operator option" where
  "gate_operator g p =
     (if g = ''h'' \<and> p = [] then Some H
      else if g = ''cnot'' \<and> p = [] then Some CNot
      else None)"

fun line_instructions :: "qasm_line \<Rightarrow> instruction list option" where
  "line_instructions (Gate g p ops) =
     (case (gate_operator g p, all_some (map qubit_index ops)) of
        (Some opr, Some qs) \<Rightarrow> Some [Instruction opr qs]
      | _ \<Rightarrow> None)"
| "line_instructions (NoisePragma n p ops) =
     (case all_some (map qubit_index ops) of
        Some qs \<Rightarrow> if n = ''depolarizing'' then Some [Instruction (Depolarizing p) qs] else None
      | None \<Rightarrow> None)"
| "line_instructions Blank = Some []"
| "line_instructions Comment = Some []"
| "line_instructions Version = Some []"
| "line_instructions (QubitDecl r k) = Some []"
| "line_instructions (BitDecl r k) = Some []"
| "line_instructions (Measure c q) = Some []"
| "line_instructions l = None"

definition instructions_of :: "string \<Rightarrow> instruction list option" where
  "instructions_of text =
     map_option concat (all_some (map line_instructions (scan_program text)))"

section \<open>Running the notebook\<close>

subsection \<open>Values and events\<close>

text \<open>
  The notebook computes nothing itself: every object it handles besides its own literals
  comes from a library (the Braket SDK, networkx) and is opaque to it. A library value is
  therefore the expression that produced it: \<open>VImported m n\<close> is the name \<open>n\<close> imported
  from module \<open>m\<close>, \<open>VCall f args kws\<close> what calling \<open>f\<close> returned, \<open>VAttr v a\<close> what
  reading attribute \<open>a\<close> of \<open>v\<close> returned, \<open>VElem c i\<close> the \<open>i\<close>-th element that iterating
  over the library collection \<open>c\<close> yields. \<open>VFile\<close> is an open file (name and mode).
  What a library hands back can also be \<^verbatim>\<open>None\<close>, as the result of a failed task is:
  then the value is \<open>VNone\<close>.
\<close>

datatype val =
    VNone
  | VBool bool
  | VInt int
  | VFloat string
  | VStr string
  | VList "val list"
  | VBuiltin string
  | VFile string string
  | VModule string
  | VImported string string
  | VAttr val string
  | VItem val val
  | VCall val "val list" "(string \<times> val) list"
  | VBinOp val string val
  | VFormat val string
  | VJoined "val list"
  | VElem val nat

text \<open>
  A value belongs to a library when it is a module, a name imported from one, or was
  obtained from such a value. The bound method of an open file is not.
\<close>

fun is_library :: "val \<Rightarrow> bool" where
  "is_library (VModule m) = True"
| "is_library (VImported m n) = True"
| "is_library (VAttr v a) = is_library v"
| "is_library (VItem v i) = is_library v"
| "is_library (VCall f as ks) = is_library f"
| "is_library (VBinOp l opr r) = (is_library l \<or> is_library r)"
| "is_library (VElem c i) = is_library c"
| "is_library v = False"

text \<open>
  An event is one interaction of the running notebook with something outside its own
  code: a module import, an attribute read, subscript, call, operator or formatting of a
  library value, the start of an iteration over a library collection, console output,
  and opening, writing and closing a file.
\<close>

datatype event =
    EImport string
  | EGetAttr val string
  | EGetItem val val
  | ECall val "val list" "(string \<times> val) list"
  | EBinOp val string val
  | EFormat val string
  | EIter val
  | EPrint "val list"
  | EOpen string string
  | EWrite string string
  | EClose string

text \<open>The errors Python itself raises, and the evaluator's own for syntax it does not cover.\<close>

datatype pyerror = NameError string | TypeError | AttributeError | Unsupported

subsection \<open>Expressions\<close>

text \<open>
  Evaluating an expression needs the variable bindings and, for what the libraries hand
  back, the predicate \<open>ab\<close> that says which library results are \<^verbatim>\<open>None\<close> (a result is
  named by the expression that produced it). It yields the events the evaluation
  performs, in order, and the value or the Python error it ends with. The results of a
  list of expressions evaluated left to right stop at the first error.
\<close>

fun sequence :: "(event list \<times> (pyerror + val)) list \<Rightarrow> event list \<times> (pyerror + val list)" where
  "sequence [] = ([], Inr [])"
| "sequence ((evs, Inl err) # rs) = (evs, Inl err)"
| "sequence ((evs, Inr v) # rs) =
     (case sequence rs of
        (evs', Inl err) \<Rightarrow> (evs @ evs', Inl err)
      | (evs', Inr vs) \<Rightarrow> (evs @ evs', Inr (v # vs)))"

definition builtins :: "string list" where
  "builtins = [''print'', ''open'']"

definition lookup :: "(string \<times> val) list \<Rightarrow> string \<Rightarrow> pyerror + val" where
  "lookup env x =
     (case map_of env x of
        Some v \<Rightarrow> Inr v
      | None \<Rightarrow> if x \<in> set builtins then Inr (VBuiltin x) else Inl (NameError x))"

definition answer :: "(val \<Rightarrow> bool) \<Rightarrow> val \<Rightarrow> val" where
  "answer ab v = (if ab v then VNone else v)"

text \<open>
  An attribute of \<^verbatim>\<open>None\<close> (and of every other value that is not a library's, except the
  \<^verbatim>\<open>write\<close> method of an open file) is an \<^verbatim>\<open>AttributeError\<close>; subscripting, calling,
  formatting with a format specification, adding and iterating over \<^verbatim>\<open>None\<close> are a
  \<^verbatim>\<open>TypeError\<close>.
\<close>

definition get_attr :: "(val \<Rightarrow> bool) \<Rightarrow> val \<Rightarrow> string \<Rightarrow> event list \<times> (pyerror + val)" where
  "get_attr ab v a =
     (if is_library v then ([EGetAttr v a], Inr (answer ab (VAttr v a)))
      else (case v of
              VFile n m \<Rightarrow> if a = ''write'' then ([], Inr (VAttr v a)) else ([], Inl AttributeError)
            | _ \<Rightarrow> ([], Inl AttributeError)))"

definition get_item :: "(val \<Rightarrow> bool) \<Rightarrow> val \<Rightarrow> val \<Rightarrow> event list \<times> (pyerror + val)" where
  "get_item ab v i =
     (if is_library v then ([EGetItem v i], Inr (answer ab (VItem v i)))
      else (case v of VNone \<Rightarrow> ([], Inl TypeError) | _ \<Rightarrow> ([], Inl Unsupported)))"

text \<open>
  A call: \<^verbatim>\<open>print\<close> writes its arguments to the console, \<^verbatim>\<open>open\<close> opens a file,
  the \<^verbatim>\<open>write\<close> method of an open file writes a string to it, and a library callable
  is called with the argument values as they are.
\<close>

definition call ::
  "(val \<Rightarrow> bool) \<Rightarrow> val \<Rightarrow> val list \<Rightarrow> (string \<times> val) list \<Rightarrow> event list \<times> (pyerror + val)" where
  "call ab f as ks =
     (if is_library f then ([ECall f as ks], Inr (answer ab (VCall f as ks)))
      else (case f of
              VBuiltin b \<Rightarrow>
                if b = ''print'' \<and> ks = [] then ([EPrint as], Inr VNone)
                else if b = ''open'' \<and> ks = [] then
                  (case as of
                     [VStr n, VStr m] \<Rightarrow> ([EOpen n m], Inr (VFile n m))
                   | _ \<Rightarrow> ([], Inl Unsupported))
                else ([], Inl Unsupported)
            | VAttr (VFile n m) a \<Rightarrow>
                (case (as, ks) of
                   ([VStr s], []) \<Rightarrow> ([EWrite n s], Inr (VInt (int (length s))))
                 | _ \<Rightarrow> ([], Inl TypeError))
            | _ \<Rightarrow> ([], Inl TypeError)))"

definition bin_op :: "val \<Rightarrow> string \<Rightarrow> val \<Rightarrow> event list \<times> (pyerror + val)" where
  "bin_op l opr r =
     (if is_library l \<or> is_library r then ([EBinOp l opr r], Inr (VBinOp l opr r))
      else if l = VNone \<or> r = VNone then ([], Inl TypeError)
      else ([], Inl Unsupported))"

definition format_value :: "val \<Rightarrow> string \<Rightarrow> event list \<times> (pyerror + val)" where
  "format_value v f =
     (if is_library v then ([EFormat v f], Inr (VFormat v f))
      else (case v of
              VNone \<Rightarrow> if f = [] then ([], Inr (VStr ''None'')) else ([], Inl TypeError)
            | _ \<Rightarrow> ([], Inl Unsupported)))"

fun eval :: "(val \<Rightarrow> bool) \<Rightarrow> (string \<times> val) list \<Rightarrow> expr \<Rightarrow> event list \<times> (pyerror + val)" where
  "eval ab env (Name x) = ([], lookup env x)"
| "eval ab env (Str s) = ([], Inr (VStr s))"
| "eval ab env (IntLit i) = ([], Inr (VInt i))"
| "eval ab env (BoolLit b) = ([], Inr (VBool b))"
| "eval ab env (FloatLit f) = ([], Inr (VFloat f))"
| "eval ab env (ListLit es) =
     (case sequence (map (eval ab env) es) of
        (evs, Inl err) \<Rightarrow> (evs, Inl err)
      | (evs, Inr vs) \<Rightarrow> (evs, Inr (VList vs)))"
| "eval ab env (Attribute e a) =
     (case eval ab env e of
        (evs, Inl err) \<Rightarrow> (evs, Inl err)
      | (evs, Inr v) \<Rightarrow> (case get_attr ab v a of (evs', r) \<Rightarrow> (evs @ evs', r)))"
| "eval ab env (Subscript e i) =
     (case eval ab env e of
        (evs, Inl err) \<Rightarrow> (evs, Inl err)
      | (evs, Inr v) \<Rightarrow>
          (case eval ab env i of
             (evs1, Inl err) \<Rightarrow> (evs @ evs1, Inl err)
           | (evs1, Inr iv) \<Rightarrow> (case get_item ab v iv of (evs', r) \<Rightarrow> (evs @ evs1 @ evs', r))))"
| "eval ab env (Call f as ks) =
     (case eval ab env f of
        (evs, Inl err) \<Rightarrow> (evs, Inl err)
      | (evs, Inr fv) \<Rightarrow>
          (case sequence (map (eval ab env) as) of
             (evs1, Inl err) \<Rightarrow> (evs @ evs1, Inl err)
           | (evs1, Inr avs) \<Rightarrow>
               (case sequence (map (\<lambda>k. eval ab env (snd k)) ks) of
                  (evs2, Inl err) \<Rightarrow> (evs @ evs1 @ evs2, Inl err)
                | (evs2, Inr kvs) \<Rightarrow>
                    (case call ab fv avs (zip (map fst ks) kvs) of
                       (evs', r) \<Rightarrow> (evs @ evs1 @ evs2 @ evs', r)))))"
| "eval ab env (BinOp l opr r) =
     (case eval ab env l of
        (evs, Inl err) \<Rightarrow> (evs, Inl err)
      | (evs, Inr lv) \<Rightarrow>
          (case eval ab env r of
             (evs1, Inl err) \<Rightarrow> (evs @ evs1, Inl err)
           | (evs1, Inr rv) \<Rightarrow> (case bin_op lv opr rv of (evs', r) \<Rightarrow> (evs @ evs1 @ evs', r))))"
| "eval ab env (JoinedStr es) =
     (case sequence (map (eval ab env) es) of
        (evs, Inl err) \<Rightarrow> (evs, Inl err)
      | (evs, Inr vs) \<Rightarrow> (evs, Inr (VJoined vs)))"
| "eval ab env (FormattedValue e f) =
     (case eval ab env e of
        (evs, Inl err) \<Rightarrow> (evs, Inl err)
      | (evs, Inr v) \<Rightarrow> (case format_value v f of (evs', r) \<Rightarrow> (evs @ evs', r)))"
| "eval ab env (Await e) = ([], Inl Unsupported)"
| "eval ab env (Lambda xs e) = ([], Inl Unsupported)"

subsection \<open>Statements\<close>

text \<open>
  The world is everything the notebook does not own. It decides whether an interaction
  raises (\<open>raises w n e\<close>: the error that event \<open>e\<close>, the \<open>n\<close>-th of the run, ends with,
  if any), how many elements a library collection holds, and which results of library
  calls, attribute reads and subscripts are \<^verbatim>\<open>None\<close> instead of an object (\<open>absent\<close>).
  The type \<open>'x\<close> of the world's errors is left open.
\<close>

record 'x world =
  raises :: "nat \<Rightarrow> event \<Rightarrow> 'x option"
  count :: "val \<Rightarrow> nat"
  absent :: "val \<Rightarrow> bool"

datatype 'x exn = Internal pyerror | External 'x

text \<open>
  The state of a run: the variable bindings of the notebook's one global namespace, the
  events so far, and the exception that ended the run, if one did.
\<close>

datatype 'x state =
  State (env: "(string \<times> val) list") (trace: "event list") (raised: "'x exn option")

definition initial :: "'x state" where
  "initial = State [] [] None"

definition record_event :: "event \<Rightarrow> 'x state \<Rightarrow> 'x state" where
  "record_event e st = State (env st) (trace st @ [e]) (raised st)"

definition raise :: "'x exn \<Rightarrow> 'x state \<Rightarrow> 'x state" where
  "raise x st = State (env st) (trace st) (Some x)"

text \<open>Performing events in order: the first one the world fails ends the run.\<close>

fun perform :: "'x world \<Rightarrow> event list \<Rightarrow> 'x state \<Rightarrow> 'x state" where
  "perform w [] st = st"
| "perform w (e # es) st =
     (case raises w (length (trace st)) e of
        Some x \<Rightarrow> raise (External x) (record_event e st)
      | None \<Rightarrow> perform w es (record_event e st))"

text \<open>
  Evaluating an expression in a state: its events are performed, and it ends with the
  world's error at the first event that fails, else with its own Python error, else with
  its value.
\<close>

definition finish :: "pyerror + val \<Rightarrow> 'x state \<Rightarrow> 'x state \<times> val option" where
  "finish r st =
     (if raised st \<noteq> None then (st, None)
      else (case r of
              Inl err \<Rightarrow> (raise (Internal err) st, None)
            | Inr v \<Rightarrow> (st, Some v)))"

definition evaluate :: "'x world \<Rightarrow> expr \<Rightarrow> 'x state \<Rightarrow> 'x state \<times> val option" where
  "evaluate w e st =
     (case eval (absent w) (env st) e of (evs, r) \<Rightarrow> finish r (perform w evs st))"

definition bind :: "string \<Rightarrow> val \<Rightarrow> 'x state \<Rightarrow> 'x state" where
  "bind x v st = State ((x, v) # env st) (trace st) (raised st)"

definition bound_name :: "string \<Rightarrow> string option \<Rightarrow> string" where
  "bound_name n a = (case a of None \<Rightarrow> n | Some b \<Rightarrow> b)"

text \<open>
  What a \<^verbatim>\<open>for\<close> loop iterates over: the items of a list, or the elements of a
  library collection, as many as the world says.
\<close>

definition elements :: "'x world \<Rightarrow> val \<Rightarrow> (event list \<times> val list) option" where
  "elements w c =
     (if is_library c then Some ([EIter c], map (VElem c) [0..<count w c])
      else (case c of VList vs \<Rightarrow> Some ([], vs) | _ \<Rightarrow> None))"

text \<open>
  A statement is run in a state with no exception pending; a block stops at the first
  statement that raises. \<^verbatim>\<open>with open(...) as f\<close> closes the file when its body is
  left, also by an exception. The statement forms the notebook does not contain end the
  run with \<open>Unsupported\<close>.
\<close>

definition binding :: "'x state \<Rightarrow> string \<times> string option \<Rightarrow> string \<Rightarrow> 'x state" where
  "binding st n m = bind (bound_name (fst n) (snd n)) (VImported m (fst n)) st"

definition leave_file :: "'x world \<Rightarrow> string \<Rightarrow> 'x state \<Rightarrow> 'x state" where
  "leave_file w n st =
     (if raised st \<noteq> None then record_event (EClose n) st else perform w [EClose n] st)"

fun exec :: "'x world \<Rightarrow> 'x state \<Rightarrow> stmt \<Rightarrow> 'x state" where
  "exec w st (Import m a) =
     (case finish (Inr (VModule m)) (perform w [EImport m] st) of
        (st', None) \<Rightarrow> st'
      | (st', Some v) \<Rightarrow> bind (bound_name m a) v st')"
| "exec w st (ImportFrom m ns) =
     (case finish (Inr (VModule m)) (perform w [EImport m] st) of
        (st', None) \<Rightarrow> st'
      | (st', Some v) \<Rightarrow> foldl (\<lambda>s n. binding s n m) st' ns)"
| "exec w st (Assign (Name x) e) =
     (case evaluate w e st of
        (st', None) \<Rightarrow> st'
      | (st', Some v) \<Rightarrow> bind x v st')"
| "exec w st (Expr e) = fst (evaluate w e st)"
| "exec w st (With e x body) =
     (case evaluate w e st of
        (st', None) \<Rightarrow> st'
      | (st', Some (VFile n m)) \<Rightarrow>
          leave_file w n
            (foldl (\<lambda>s c. if raised s \<noteq> None then s else exec w s c)
               (case x of None \<Rightarrow> st' | Some y \<Rightarrow> bind y (VFile n m) st') body)
      | (st', Some v) \<Rightarrow> raise (Internal Unsupported) st')"
| "exec w st (For x e body) =
     (case evaluate w e st of
        (st', None) \<Rightarrow> st'
      | (st', Some c) \<Rightarrow>
          (case elements w c of
             None \<Rightarrow> raise (Internal TypeError) st'
           | Some (evs, vs) \<Rightarrow>
               foldl (\<lambda>s v. if raised s \<noteq> None then s
                            else foldl (\<lambda>s c. if raised s \<noteq> None then s else exec w s c)
                                   (bind x v s) body)
                 (perform w evs st') vs))"
| "exec w st s = raise (Internal Unsupported) st"

definition exec_block :: "'x world \<Rightarrow> 'x state \<Rightarrow> stmt list \<Rightarrow> 'x state" where
  "exec_block w st ss = foldl (\<lambda>s c. if raised s \<noteq> None then s else exec w s c) st ss"

text \<open>Running the notebook: its code cells from top to bottom, in one namespace.\<close>

definition run :: "'x world \<Rightarrow> cell list \<Rightarrow> 'x state" where
  "run w nb = exec_block w initial (top_level nb)"

subsection \<open>The values and events of an error-free run\<close>

text \<open>
  A world is quiet when no interaction fails and nothing a library hands back is
  \<^verbatim>\<open>None\<close>; a run in a quiet world is an error-free run. Names for the library values
  the notebook's variables hold in a quiet world, and for the events each code cell then
  performs. The lemmas of the section
  \<open>The error-free run\<close> prove that the evaluator computes exactly these.
\<close>

definition quiet :: "'x world \<Rightarrow> bool" where
  "quiet w = ((\<forall>n e. raises w n e = None) \<and> (\<forall>v. \<not> absent w v))"

definition device :: "string \<Rightarrow> val" where
  "device arn = VCall (VImported ''braket.aws'' ''AwsDevice'') [VStr arn] []"

definition sv1_dev :: val where
  "sv1_dev = device ''arn:aws:braket:::device/quantum-simulator/amazon/sv1''"

definition dm1_dev :: val where
  "dm1_dev = device ''arn:aws:braket:::device/quantum-simulator/amazon/dm1''"

definition aspen_m1_dev :: val where
  "aspen_m1_dev = device ''arn:aws:braket:us-west-1::device/qpu/rigetti/Aspen-M-1''"

definition openqasm_class :: val where
  "openqasm_class = VImported ''braket.ir.openqasm'' ''Program''"

definition openqasm_program :: "string \<Rightarrow> val" where
  "openqasm_program text = VCall openqasm_class [] [(''source'', VStr text)]"

definition submitted :: "val \<Rightarrow> val \<Rightarrow> int \<Rightarrow> val" where
  "submitted dev payload shots = VCall (VAttr dev ''run'') [payload] [(''shots'', VInt shots)]"

definition result_of :: "val \<Rightarrow> val" where
  "result_of task = VCall (VAttr task ''result'') [] []"

definition tracker :: val where
  "tracker = VCall (VAttr (VCall (VImported ''braket.tracking'' ''Tracker'') [] []) ''start'') [] []"

definition jaqcd_program :: val where
  "jaqcd_program =
     VCall (VImported ''braket.ir.jaqcd'' ''Program'') []
       [(''instructions'',
         VList [VCall (VImported ''braket.ir.jaqcd'' ''H'') [] [(''target'', VInt 0)],
                VCall (VImported ''braket.ir.jaqcd'' ''CNot'') []
                  [(''control'', VInt 0), (''target'', VInt 1)]])]"

definition circuit_class :: val where
  "circuit_class = VImported ''braket.circuits'' ''Circuit''"

definition circuit_h :: val where
  "circuit_h = VCall (VAttr (VCall circuit_class [] []) ''h'') [VInt 0] []"

definition circuit_h_cnot :: val where
  "circuit_h_cnot = VCall (VAttr circuit_h ''cnot'') [VInt 0, VInt 1] []"

definition sdk_circuit :: val where
  "sdk_circuit = VCall (VAttr circuit_h_cnot ''cnot'') [VInt 1, VInt 2] []"

definition depolarizing_noise :: val where
  "depolarizing_noise =
     VCall (VAttr (VImported ''braket.circuits'' ''Noise'') ''Depolarizing'') []
       [(''probability'', VFloat ''0.1'')]"

definition sv1_action :: val where
  "sv1_action =
     VItem (VAttr (VAttr sv1_dev ''properties'') ''action'') (VStr ''braket.ir.openqasm.program'')"

definition read_sv1_action :: "event list" where
  "read_sv1_action =
     [EGetAttr sv1_dev ''properties'',
      EGetAttr (VAttr sv1_dev ''properties'') ''action'',
      EGetItem (VAttr (VAttr sv1_dev ''properties'') ''action'') (VStr ''braket.ir.openqasm.program'')]"

definition aspen_paradigm :: val where
  "aspen_paradigm = VAttr (VAttr aspen_m1_dev ''properties'') ''paradigm''"

definition read_aspen_paradigm :: "event list" where
  "read_aspen_paradigm =
     [EGetAttr aspen_m1_dev ''properties'',
      EGetAttr (VAttr aspen_m1_dev ''properties'') ''paradigm'']"

text \<open>The tasks of the notebook, in the order of their submission.\<close>

definition bell_task :: val where
  "bell_task = submitted sv1_dev (openqasm_program bell_qasm) 100"

definition noisy_ghz3_circ_task :: val where
  "noisy_ghz3_circ_task = submitted dm1_dev sdk_circuit 10"

definition noisy_ghz3_program_task :: val where
  "noisy_ghz3_program_task = submitted dm1_dev (openqasm_program noisy_ghz3_program) 10"

definition unitary_task :: val where
  "unitary_task = submitted dm1_dev (openqasm_program program_with_unitary) 10"

definition ghz_program_with_physical_qubits_task :: val where
  "ghz_program_with_physical_qubits_task =
     submitted aspen_m1_dev (openqasm_program ghz_program_with_physical_qubits) 10"

definition verbatim_task :: val where
  "verbatim_task = submitted aspen_m1_dev (openqasm_program program_with_verbatim_box) 10"

definition bell_result_types_task :: val where
  "bell_result_types_task = submitted sv1_dev (openqasm_program bell_with_result_type) 0"

text \<open>Constructing a device, constructing a program, submitting it, fetching its result.\<close>

definition construct_device :: "string \<Rightarrow> event" where
  "construct_device arn = ECall (VImported ''braket.aws'' ''AwsDevice'') [VStr arn] []"

definition construct_program :: "string \<Rightarrow> event" where
  "construct_program text = ECall openqasm_class [] [(''source'', VStr text)]"

definition submit :: "val \<Rightarrow> val \<Rightarrow> int \<Rightarrow> event list" where
  "submit dev payload shots =
     [EGetAttr dev ''run'', ECall (VAttr dev ''run'') [payload] [(''shots'', VInt shots)]]"

definition fetch :: "val \<Rightarrow> event list" where
  "fetch task = [EGetAttr task ''result'', ECall (VAttr task ''result'') [] []]"

definition submit_new :: "val \<Rightarrow> string \<Rightarrow> int \<Rightarrow> event list" where
  "submit_new dev text shots =
     [EGetAttr dev ''run'', construct_program text,
      ECall (VAttr dev ''run'') [openqasm_program text] [(''shots'', VInt shots)]]"

text \<open>
  What the variables a cell reads must hold for the cell to do what is listed, and that
  the notebook has not rebound the two builtins it calls.
\<close>

definition holds :: "'x state \<Rightarrow> (string \<times> val) list \<Rightarrow> bool" where
  "holds st rs = list_all (\<lambda>r. map_of (env st) (fst r) = Some (snd r)) rs"

definition unshadowed :: "'x state \<Rightarrow> bool" where
  "unshadowed st = (map_of (env st) ''print'' = None \<and> map_of (env st) ''open'' = None)"

text \<open>Cell \<open>531458bc\<close>: the cost tracker is started.\<close>

definition events_531458bc :: "event list" where
  "events_531458bc =
     [EImport ''braket.tracking'',
      ECall (VImported ''braket.tracking'' ''Tracker'') [] [],
      EGetAttr (VCall (VImported ''braket.tracking'' ''Tracker'') [] []) ''start'',
      ECall (VAttr (VCall (VImported ''braket.tracking'' ''Tracker'') [] []) ''start'') [] []]"

definition binds_531458bc :: "(string \<times> val) list" where
  "binds_531458bc = [(''t'', tracker), (''Tracker'', VImported ''braket.tracking'' ''Tracker'')]"

text \<open>Cell \<open>8fb7142f\<close>: the Bell circuit in JAQCD, printed as JSON.\<close>

definition events_8fb7142f :: "event list" where
  "events_8fb7142f =
     [EImport ''braket.ir.jaqcd'',
      ECall (VImported ''braket.ir.jaqcd'' ''H'') [] [(''target'', VInt 0)],
      ECall (VImported ''braket.ir.jaqcd'' ''CNot'') [] [(''control'', VInt 0), (''target'', VInt 1)],
      ECall (VImported ''braket.ir.jaqcd'' ''Program'') []
        [(''instructions'',
          VList [VCall (VImported ''braket.ir.jaqcd'' ''H'') [] [(''target'', VInt 0)],
                 VCall (VImported ''braket.ir.jaqcd'' ''CNot'') []
                   [(''control'', VInt 0), (''target'', VInt 1)]])],
      EGetAttr jaqcd_program ''json'',
      ECall (VAttr jaqcd_program ''json'') [] [(''indent'', VInt 2)],
      EPrint [VCall (VAttr jaqcd_program ''json'') [] [(''indent'', VInt 2)]]]"

definition binds_8fb7142f :: "(string \<times> val) list" where
  "binds_8fb7142f =
     [(''program'', jaqcd_program),
      (''Program'', VImported ''braket.ir.jaqcd'' ''Program''),
      (''H'', VImported ''braket.ir.jaqcd'' ''H''),
      (''CNot'', VImported ''braket.ir.jaqcd'' ''CNot'')]"

text \<open>Cell \<open>5044bf8c\<close>: imports.\<close>

definition events_5044bf8c :: "event list" where
  "events_5044bf8c = [EImport ''boto3'', EImport ''json'', EImport ''braket.aws'']"

definition binds_5044bf8c :: "(string \<times> val) list" where
  "binds_5044bf8c =
     [(''AwsDevice'', VImported ''braket.aws'' ''AwsDevice''),
      (''json'', VModule ''json''),
      (''boto3'', VModule ''boto3'')]"

text \<open>Cell \<open>13f35368\<close>: the Bell program is submitted to SV1.\<close>

definition reads_13f35368 :: "(string \<times> val) list" where
  "reads_13f35368 =
     [(''AwsDevice'', VImported ''braket.aws'' ''AwsDevice''), (''bell_qasm'', VStr bell_qasm)]"

definition events_13f35368 :: "event list" where
  "events_13f35368 =
     [EImport ''braket.ir.openqasm'',
      construct_device ''arn:aws:braket:::device/quantum-simulator/amazon/sv1'',
      construct_program bell_qasm]
     @ submit sv1_dev (openqasm_program bell_qasm) 100"

definition binds_13f35368 :: "(string \<times> val) list" where
  "binds_13f35368 =
     [(''bell_task'', bell_task),
      (''bell_program'', openqasm_program bell_qasm),
      (''sv1'', sv1_dev),
      (''OpenQASMProgram'', openqasm_class)]"

text \<open>Cell \<open>1cc596be\<close>: the Bell text is written to \<^verbatim>\<open>bell.qasm\<close>.\<close>

definition reads_1cc596be :: "(string \<times> val) list" where
  "reads_1cc596be = [(''bell_qasm'', VStr bell_qasm)]"

definition events_1cc596be :: "event list" where
  "events_1cc596be =
     [EOpen ''bell.qasm'' ''w'', EWrite ''bell.qasm'' bell_qasm, EClose ''bell.qasm'']"

definition binds_1cc596be :: "(string \<times> val) list" where
  "binds_1cc596be = [(''f'', VFile ''bell.qasm'' ''w'')]"

text \<open>Cells \<open>a7951803\<close>, \<open>05e224e3\<close>, \<open>f123f0ab\<close>: one field of SV1's OpenQASM action.\<close>

definition reads_sv1 :: "(string \<times> val) list" where
  "reads_sv1 = [(''sv1'', sv1_dev)]"

definition events_sv1_field :: "string \<Rightarrow> event list" where
  "events_sv1_field a = read_sv1_action @ [EGetAttr sv1_action a]"

text \<open>Cell \<open>2755f581\<close>: the SDK circuit is built and given its noise.\<close>

definition events_2755f581 :: "event list" where
  "events_2755f581 =
     [EImport ''braket.circuits'',
      ECall circuit_class [] [],
      EGetAttr (VCall circuit_class [] []) ''h'',
      ECall (VAttr (VCall circuit_class [] []) ''h'') [VInt 0] [],
      EGetAttr circuit_h ''cnot'',
      ECall (VAttr circuit_h ''cnot'') [VInt 0, VInt 1] [],
      EGetAttr circuit_h_cnot ''cnot'',
      ECall (VAttr circuit_h_cnot ''cnot'') [VInt 1, VInt 2] [],
      EGetAttr (VImported ''braket.circuits'' ''Noise'') ''Depolarizing'',
      ECall (VAttr (VImported ''braket.circuits'' ''Noise'') ''Depolarizing'') []
        [(''probability'', VFloat ''0.1'')],
      EGetAttr sdk_circuit ''apply_gate_noise'',
      ECall (VAttr sdk_circuit ''apply_gate_noise'') [depolarizing_noise] []]"

definition binds_2755f581 :: "(string \<times> val) list" where
  "binds_2755f581 =
     [(''noise'', depolarizing_noise),
      (''noisy_ghz3_circ'', sdk_circuit),
      (''Noise'', VImported ''braket.circuits'' ''Noise''),
      (''Gate'', VImported ''braket.circuits'' ''Gate''),
      (''Observable'', VImported ''braket.circuits'' ''Observable''),
      (''Circuit'', circuit_class)]"

text \<open>Cell \<open>138d5edd\<close>: the SDK circuit and the noisy GHZ program are submitted to DM1.\<close>

definition reads_138d5edd :: "(string \<times> val) list" where
  "reads_138d5edd =
     [(''AwsDevice'', VImported ''braket.aws'' ''AwsDevice''),
      (''noisy_ghz3_circ'', sdk_circuit),
      (''OpenQASMProgram'', openqasm_class),
      (''noisy_ghz3_program'', VStr noisy_ghz3_program)]"

definition events_138d5edd :: "event list" where
  "events_138d5edd =
     construct_device ''arn:aws:braket:::device/quantum-simulator/amazon/dm1''
     # submit dm1_dev sdk_circuit 10
     @ submit_new dm1_dev noisy_ghz3_program 10"

definition binds_138d5edd :: "(string \<times> val) list" where
  "binds_138d5edd =
     [(''noisy_ghz3_program_task'', noisy_ghz3_program_task),
      (''noisy_ghz3_circ_task'', noisy_ghz3_circ_task),
      (''dm1'', dm1_dev)]"

text \<open>Cell \<open>2a21c9e7\<close>: both results are fetched and their counts printed.\<close>

definition reads_2a21c9e7 :: "(string \<times> val) list" where
  "reads_2a21c9e7 =
     [(''noisy_ghz3_circ_task'', noisy_ghz3_circ_task),
      (''noisy_ghz3_program_task'', noisy_ghz3_program_task)]"

definition events_2a21c9e7 :: "event list" where
  "events_2a21c9e7 =
     fetch noisy_ghz3_circ_task @ fetch noisy_ghz3_program_task
     @ [EGetAttr (result_of noisy_ghz3_circ_task) ''measurement_counts'',
        EGetAttr (result_of noisy_ghz3_program_task) ''measurement_counts'',
        EPrint [VStr ''sdk measurement results:'',
                VAttr (result_of noisy_ghz3_circ_task) ''measurement_counts''],
        EPrint [VStr ''openqasm measurement results:'',
                VAttr (result_of noisy_ghz3_program_task) ''measurement_counts'']]"

definition binds_2a21c9e7 :: "(string \<times> val) list" where
  "binds_2a21c9e7 =
     [(''openqasm_measurement'', VAttr (result_of noisy_ghz3_program_task) ''measurement_counts''),
      (''sdk_measurement'', VAttr (result_of noisy_ghz3_circ_task) ''measurement_counts''),
      (''openqasm_result'', result_of noisy_ghz3_program_task),
      (''sdk_result'', result_of noisy_ghz3_circ_task)]"

text \<open>Cell \<open>4461b1a8\<close>: the unitary program is submitted to DM1, fetched and printed.\<close>

definition reads_4461b1a8 :: "(string \<times> val) list" where
  "reads_4461b1a8 =
     [(''dm1'', dm1_dev),
      (''OpenQASMProgram'', openqasm_class),
      (''program_with_unitary'', VStr program_with_unitary)]"

definition events_4461b1a8 :: "event list" where
  "events_4461b1a8 =
     submit_new dm1_dev program_with_unitary 10 @ fetch unitary_task
     @ [EGetAttr (result_of unitary_task) ''measurement_counts'',
        EPrint [VAttr (result_of unitary_task) ''measurement_counts'']]"

definition binds_4461b1a8 :: "(string \<times> val) list" where
  "binds_4461b1a8 =
     [(''unitary_result'', result_of unitary_task), (''unitary_task'', unitary_task)]"

text \<open>Cell \<open>9c42efc5\<close>: the physical-qubit program runs on Aspen-M-1.\<close>

definition reads_9c42efc5 :: "(string \<times> val) list" where
  "reads_9c42efc5 =
     [(''AwsDevice'', VImported ''braket.aws'' ''AwsDevice''),
      (''OpenQASMProgram'', openqasm_class),
      (''ghz_program_with_physical_qubits'', VStr ghz_program_with_physical_qubits)]"

definition events_9c42efc5 :: "event list" where
  "events_9c42efc5 =
     construct_device ''arn:aws:braket:us-west-1::device/qpu/rigetti/Aspen-M-1''
     # submit_new aspen_m1_dev ghz_program_with_physical_qubits 10
     @ fetch ghz_program_with_physical_qubits_task
     @ [EGetAttr (result_of ghz_program_with_physical_qubits_task) ''measured_qubits'',
        EPrint [VStr ''Measured qubits:'',
                VAttr (result_of ghz_program_with_physical_qubits_task) ''measured_qubits'']]"

definition binds_9c42efc5 :: "(string \<times> val) list" where
  "binds_9c42efc5 =
     [(''measured_qubits'',
       VAttr (result_of ghz_program_with_physical_qubits_task) ''measured_qubits''),
      (''ghz_program_with_physical_qubits_task'', ghz_program_with_physical_qubits_task),
      (''aspen_m1'', aspen_m1_dev)]"

text \<open>
  Cell \<open>92ab8cf7\<close>: the native gates of Aspen-M-1 are printed, one line for each of the
  \<open>n\<close> elements the device lists.
\<close>

definition reads_aspen :: "(string \<times> val) list" where
  "reads_aspen = [(''aspen_m1'', aspen_m1_dev)]"

definition native_gates :: val where
  "native_gates = VAttr aspen_paradigm ''nativeGateSet''"

definition print_each :: "val \<Rightarrow> nat \<Rightarrow> event list" where
  "print_each c n = map (\<lambda>i. EPrint [VElem c i]) [0..<n]"

definition bind_each :: "string \<Rightarrow> val \<Rightarrow> nat \<Rightarrow> (string \<times> val) list" where
  "bind_each x c n = map (\<lambda>i. (x, VElem c i)) (rev [0..<n])"

definition events_92ab8cf7 :: "nat \<Rightarrow> event list" where
  "events_92ab8cf7 n =
     [EGetAttr aspen_m1_dev ''name'',
      EPrint [VStr ''The native gates for the'', VAttr aspen_m1_dev ''name'', VStr ''device are:'']]
     @ read_aspen_paradigm
     @ [EGetAttr aspen_paradigm ''nativeGateSet'', EIter native_gates]
     @ print_each native_gates n"

text \<open>Cell \<open>d5f76be2\<close>: the connectivity graph is printed and drawn.\<close>

definition events_d5f76be2 :: "event list" where
  "events_d5f76be2 =
     EImport ''networkx'' # read_aspen_paradigm
     @ [EGetAttr aspen_paradigm ''connectivity'',
        EGetAttr (VAttr aspen_paradigm ''connectivity'') ''connectivityGraph'',
        EPrint [VAttr (VAttr aspen_paradigm ''connectivity'') ''connectivityGraph''],
        EGetAttr (VModule ''networkx'') ''draw_kamada_kawai'',
        EGetAttr aspen_m1_dev ''topology_graph'',
        ECall (VAttr (VModule ''networkx'') ''draw_kamada_kawai'')
          [VAttr aspen_m1_dev ''topology_graph'']
          [(''with_labels'', VBool True), (''font_color'', VStr ''white'')]]"

definition binds_d5f76be2 :: "(string \<times> val) list" where
  "binds_d5f76be2 = [(''nx'', VModule ''networkx'')]"

text \<open>Cell \<open>15af3a32\<close>: the verbatim program runs on Aspen-M-1; its compiled form is printed.\<close>

definition reads_15af3a32 :: "(string \<times> val) list" where
  "reads_15af3a32 =
     [(''aspen_m1'', aspen_m1_dev),
      (''OpenQASMProgram'', openqasm_class),
      (''program_with_verbatim_box'', VStr program_with_verbatim_box)]"

definition verbatim_meta :: val where
  "verbatim_meta =
     VAttr (VAttr (result_of verbatim_task) ''additional_metadata'') ''rigettiMetadata''"

definition events_15af3a32 :: "event list" where
  "events_15af3a32 =
     submit_new aspen_m1_dev program_with_verbatim_box 10 @ fetch verbatim_task
     @ [EGetAttr (result_of verbatim_task) ''additional_metadata'',
        EGetAttr (VAttr (result_of verbatim_task) ''additional_metadata'') ''rigettiMetadata'',
        EGetAttr verbatim_meta ''compiledProgram'',
        EPrint [VAttr verbatim_meta ''compiledProgram'']]"

definition binds_15af3a32 :: "(string \<times> val) list" where
  "binds_15af3a32 =
     [(''meta'', verbatim_meta),
      (''verbatim_result'', result_of verbatim_task),
      (''verbatim_task'', verbatim_task)]"

text \<open>Cell \<open>7f348ffd\<close>: the result types SV1 supports are printed, \<open>n\<close> of them.\<close>

definition result_types :: val where
  "result_types = VAttr sv1_action ''supportedResultTypes''"

definition events_7f348ffd :: "nat \<Rightarrow> event list" where
  "events_7f348ffd n =
     events_sv1_field ''supportedResultTypes'' @ [EIter result_types] @ print_each result_types n"

text \<open>Cell \<open>2b7aa936\<close>: the Bell program with result types runs on SV1 with no shots.\<close>

definition reads_2b7aa936 :: "(string \<times> val) list" where
  "reads_2b7aa936 =
     [(''sv1'', sv1_dev),
      (''OpenQASMProgram'', openqasm_class),
      (''bell_with_result_type'', VStr bell_with_result_type)]"

definition events_2b7aa936 :: "event list" where
  "events_2b7aa936 =
     submit_new sv1_dev bell_with_result_type 0 @ fetch bell_result_types_task
     @ [EGetAttr (result_of bell_result_types_task) ''values'',
        EPrint [VAttr (result_of bell_result_types_task) ''values'']]"

definition binds_2b7aa936 :: "(string \<times> val) list" where
  "binds_2b7aa936 =
     [(''values'', VAttr (result_of bell_result_types_task) ''values''),
      (''bell_result'', result_of bell_result_types_task),
      (''bell_result_types_task'', bell_result_types_task)]"

text \<open>Cell \<open>61317ba8\<close>: the tracker's task summary and cost estimate are printed.\<close>

definition reads_61317ba8 :: "(string \<times> val) list" where
  "reads_61317ba8 = [(''t'', tracker)]"

definition estimated_cost :: val where
  "estimated_cost =
     VBinOp (VCall (VAttr tracker ''qpu_tasks_cost'') [] []) ''+''
            (VCall (VAttr tracker ''simulator_tasks_cost'') [] [])"

definition events_61317ba8 :: "event list" where
  "events_61317ba8 =
     [EPrint [VStr ''Task Summary''],
      EGetAttr tracker ''quantum_tasks_statistics'',
      ECall (VAttr tracker ''quantum_tasks_statistics'') [] [],
      EPrint [VCall (VAttr tracker ''quantum_tasks_statistics'') [] []],
      EPrint [VStr charges_note],
      EGetAttr tracker ''qpu_tasks_cost'',
      ECall (VAttr tracker ''qpu_tasks_cost'') [] [],
      EGetAttr tracker ''simulator_tasks_cost'',
      ECall (VAttr tracker ''simulator_tasks_cost'') [] [],
      EBinOp (VCall (VAttr tracker ''qpu_tasks_cost'') [] []) ''+''
             (VCall (VAttr tracker ''simulator_tasks_cost'') [] []),
      EFormat estimated_cost ''.2f'',
      EPrint [VJoined [VStr ''Estimated cost to run this example: '',
                       VFormat estimated_cost ''.2f'', VStr '' USD'']]]"

text \<open>The events of the whole error-free run, and the bindings it ends with.\<close>

definition quiet_trace :: "(val \<Rightarrow> nat) \<Rightarrow> event list" where
  "quiet_trace cnt =
     events_531458bc @ events_8fb7142f @ events_5044bf8c @ events_13f35368 @ events_1cc596be
     @ events_sv1_field ''supportedOperations'' @ events_sv1_field ''supportedPragmas''
     @ events_sv1_field ''forbiddenPragmas'' @ events_2755f581 @ events_138d5edd
     @ events_2a21c9e7 @ events_4461b1a8 @ events_9c42efc5 @ events_92ab8cf7 (cnt native_gates)
     @ events_d5f76be2 @ events_15af3a32 @ events_7f348ffd (cnt result_types)
     @ events_2b7aa936 @ events_61317ba8"

definition quiet_env :: "(val \<Rightarrow> nat) \<Rightarrow> (string \<times> val) list" where
  "quiet_env cnt =
     (''program_with_non_simultaneously_measurable_result_types'',
      VStr program_with_non_simultaneously_measurable_result_types)
     # binds_2b7aa936
     @ (''bell_with_result_type'', VStr bell_with_result_type)
     # bind_each ''iter'' result_types (cnt result_types)
     @ binds_15af3a32 @ binds_d5f76be2
     @ bind_each ''gate'' native_gates (cnt native_gates)
     @ (''program_with_verbatim_box'', VStr program_with_verbatim_box)
     # binds_9c42efc5
     @ (''ghz_program_with_physical_qubits'', VStr ghz_program_with_physical_qubits)
     # binds_4461b1a8
     @ (''program_with_unitary'', VStr program_with_unitary)
     # (''noisy_program_with_kraus_operators'', VStr noisy_program_with_kraus_operators)
     # binds_2a21c9e7 @ binds_138d5edd @ binds_2755f581
     @ (''noisy_ghz3_program'', VStr noisy_ghz3_program)
     # binds_1cc596be @ binds_13f35368 @ binds_5044bf8c @ binds_8fb7142f
     @ (''bell_qasm'', VStr bell_qasm)
     # binds_531458bc"

subsection \<open>Reading a trace\<close>













text \<open>
  In the syntax: the text variables a statement wraps into an OpenQASM program, and the
  check that each is bound to a text by an earlier statement.
\<close>

fun wrapped_source :: "expr \<Rightarrow> string list" where
  "wrapped_source (Call (Name c) as ks) =
     (if c = ''OpenQASMProgram'' \<and> as = [] then
        (case ks of [(k, Name v)] \<Rightarrow> if k = ''source'' then [v] else [] | _ \<Rightarrow> [])
      else [])"
| "wrapped_source e = []"

definition stmt_exprs :: "stmt \<Rightarrow> expr list" where
  "stmt_exprs s = concat (map subexprs (concat (map exprs_of_stmt (substmts s))))"







text \<open>
  In the syntax: what the notebook does with a text variable. An expression hands a
  text variable on unchanged when it is \<^verbatim>\<open>OpenQASMProgram(source=v)\<close> or
  \<^verbatim>\<open>f.write(v)\<close>.
\<close>

fun handed_on :: "expr \<Rightarrow> string list" where
  "handed_on (Call (Name c) as ks) = wrapped_source (Call (Name c) as ks)"
| "handed_on (Call (Attribute (Name f) a) as ks) =
     (if a = ''write'' \<and> ks = [] then (case as of [Name v] \<Rightarrow> [v] | _ \<Rightarrow> []) else [])"
| "handed_on e = []"

definition text_names :: "cell list \<Rightarrow> string list" where
  "text_names nb = map fst (program_texts nb)"

definition text_reads :: "cell list \<Rightarrow> string list" where
  "text_reads nb = filter (\<lambda>x. x \<in> set (text_names nb)) (loaded_names nb)"

definition texts_handed_on :: "cell list \<Rightarrow> string list" where
  "texts_handed_on nb =
     filter (\<lambda>x. x \<in> set (text_names nb)) (concat (map handed_on (all_exprs nb)))"

text \<open>The names a statement binds: assignment targets, imports, loop and \<^verbatim>\<open>with\<close> variables.\<close>

fun bound_names :: "stmt \<Rightarrow> string list" where
  "bound_names (Import m a) = [bound_name m a]"
| "bound_names (ImportFrom m ns) = map (\<lambda>n. bound_name (fst n) (snd n)) ns"
| "bound_names (Assign (Name x) e) = [x]"
| "bound_names (With e (Some x) body) = [x]"
| "bound_names (For x e body) = [x]"
| "bound_names (FunctionDef f xs body) = [f]"
| "bound_names (AsyncFunctionDef f xs body) = [f]"
| "bound_names (ClassDef c bs body) = [c]"
| "bound_names s = []"

definition all_bound_names :: "cell list \<Rightarrow> string list" where
  "all_bound_names nb = concat (map bound_names (all_stmts nb))"


subsection \<open>Effects, outstanding tasks, and the shape of the code\<close>













fun is_async_stmt :: "stmt \<Rightarrow> bool" where
  "is_async_stmt (AsyncFunctionDef f xs body) = True"
| "is_async_stmt s = False"

fun is_await :: "expr \<Rightarrow> bool" where
  "is_await (Await e) = True"
| "is_await e = False"



text \<open>The kinds of statement, to say which the notebook contains.\<close>

datatype stmt_kind =
    KImport | KAssign | KExpr | KWith | KFor | KIf | KWhile | KTry | KRaise | KAssert
  | KFunctionDef | KAsyncFunctionDef | KClassDef

fun kind_of :: "stmt \<Rightarrow> stmt_kind" where
  "kind_of (Import m a) = KImport"
| "kind_of (ImportFrom m ns) = KImport"
| "kind_of (Assign t e) = KAssign"
| "kind_of (Expr e) = KExpr"
| "kind_of (With e x body) = KWith"
| "kind_of (For x e body) = KFor"
| "kind_of (IfStmt e a b) = KIf"
| "kind_of (WhileStmt e body) = KWhile"
| "kind_of (TryStmt body hs fin) = KTry"
| "kind_of (Raise e) = KRaise"
| "kind_of (Assert e) = KAssert"
| "kind_of (FunctionDef f xs body) = KFunctionDef"
| "kind_of (AsyncFunctionDef f xs body) = KAsyncFunctionDef"
| "kind_of (ClassDef c bs body) = KClassDef"

definition stmt_kinds :: "cell list \<Rightarrow> stmt_kind list" where
  "stmt_kinds nb = map kind_of (all_stmts nb)"

text \<open>Assignments that store into an object (an attribute or an item) instead of binding a name.\<close>

fun store_target :: "stmt \<Rightarrow> expr list" where
  "store_target (Assign (Name x) e) = []"
| "store_target (Assign t e) = [t]"
| "store_target s = []"

definition stores :: "cell list \<Rightarrow> expr list" where
  "stores nb = concat (map store_target (all_stmts nb))"

fun is_lambda :: "expr \<Rightarrow> bool" where
  "is_lambda (Lambda xs e) = True"
| "is_lambda e = False"

text \<open>
  State carried across cells: the names a cell reads that it does not bind itself and
  that another cell binds.
\<close>

definition cell_binds :: "cell \<Rightarrow> string list" where
  "cell_binds c = concat (map bound_names (concat (map substmts (stmts_of_cell c))))"

definition cell_reads :: "cell \<Rightarrow> string list" where
  "cell_reads c = concat (map name_of (concat (map stmt_exprs (stmts_of_cell c))))"

definition carried_into :: "cell list \<Rightarrow> cell \<Rightarrow> string list" where
  "carried_into nb c =
     filter (\<lambda>x. x \<notin> set (cell_binds c) \<and> x \<in> set (all_bound_names nb)) (cell_reads c)"

definition carried :: "cell list \<Rightarrow> string list" where
  "carried nb = remdups (concat (map (carried_into nb) nb))"

subsection \<open>When the world fails\<close>

text \<open>
  \<open>hush w\<close> is the world \<open>w\<close> with every failure removed: what the libraries hand back
  stays as it is in \<open>w\<close>. No event of \<open>tr\<close> with an index from \<open>a\<close> up to \<open>b\<close> fails
  in \<open>w\<close> when \<open>failure_free w tr a b\<close>.
\<close>

definition hush :: "'x world \<Rightarrow> 'x world" where
  "hush w = \<lparr>raises = (\<lambda>n e. None), count = count w, absent = absent w\<rparr>"

definition failure_free :: "'x world \<Rightarrow> event list \<Rightarrow> nat \<Rightarrow> nat \<Rightarrow> bool" where
  "failure_free w tr a b = (\<forall>n. a \<le> n \<and> n < b \<longrightarrow> raises w n (tr ! n) = None)"

text \<open>
  After a Python error of the notebook's own the only events are the closing of the files
  that \<^verbatim>\<open>with\<close> statements leave: \<open>unwinding tr m\<close> says that the events of \<open>tr\<close> from
  index \<open>m\<close> on are such.
\<close>

fun is_close :: "event \<Rightarrow> bool" where
  "is_close (EClose n) = True"
| "is_close e = False"

definition unwinding :: "event list \<Rightarrow> nat \<Rightarrow> bool" where
  "unwinding tr m = list_all is_close (drop m tr)"

text \<open>
  The end \<open>st\<close> of a run is faithful to the world, next to the end \<open>st0\<close> of the run in
  the hushed world, when it reports what the world did and nothing else. A run that ends
  normally met no failure. A run that ends with an error of the world ends with the very
  error of the first event the world failed. A run ends with a Python error of the
  notebook's own only if a library handed back \<^verbatim>\<open>None\<close> somewhere; then no event before
  the error failed, and the error is the one the hushed run ends with: no failure of the
  world is swallowed or turned into another error.
\<close>

definition faithful :: "'x world \<Rightarrow> 'x state \<Rightarrow> 'x state \<Rightarrow> bool" where
  "faithful w st st0 =
     (case raised st of
        None \<Rightarrow> failure_free w (trace st) 0 (length (trace st))
      | Some (External x) \<Rightarrow>
          (\<exists>n < length (trace st).
             raises w n (trace st ! n) = Some x \<and> failure_free w (trace st) 0 n)
      | Some (Internal p) \<Rightarrow>
          raised st0 = Some (Internal p) \<and> (\<exists>v. absent w v)
          \<and> (\<exists>m \<le> length (trace st).
                 failure_free w (trace st) 0 m \<and> unwinding (trace st) m))"

text \<open>
  The same for a part of a run, from state \<open>st\<close> to state \<open>st'\<close>, next to the state
  \<open>st0\<close> that the part reaches from \<open>st\<close> in the hushed world: the trace only grows; if
  \<open>st'\<close> is normal it is \<open>st0\<close> and no new event failed; an error of the world is that of
  the first new event that failed; a Python error is one the hushed world ends with too,
  and no new event before it failed.
\<close>

definition follows :: "'x world \<Rightarrow> 'x state \<Rightarrow> 'x state \<Rightarrow> 'x state \<Rightarrow> bool" where
  "follows w st st' st0 =
     ((\<exists>evs. trace st' = trace st @ evs) \<and>
      (case raised st' of
         None \<Rightarrow> st' = st0 \<and> failure_free w (trace st') (length (trace st)) (length (trace st'))
       | Some (External x) \<Rightarrow>
           (\<exists>n. length (trace st) \<le> n \<and> n < length (trace st')
                \<and> raises w n (trace st' ! n) = Some x
                \<and> failure_free w (trace st') (length (trace st)) n)
       | Some (Internal p) \<Rightarrow>
           raised st0 = Some (Internal p)
           \<and> (\<exists>m. length (trace st) \<le> m \<and> m \<le> length (trace st')
                  \<and> failure_free w (trace st') (length (trace st)) m
                  \<and> unwinding (trace st') m)))"

text \<open>A world in which every device submission fails.\<close>

fun refuse_run :: "nat \<Rightarrow> event \<Rightarrow> string option" where
  "refuse_run n (ECall f as ks) =
     (case f of VAttr dev a \<Rightarrow> if a = ''run'' then Some ''DeviceOffline'' else None | _ \<Rightarrow> None)"
| "refuse_run n e = None"

definition offline :: "string world" where
  "offline = \<lparr>raises = refuse_run, count = (\<lambda>c. 0), absent = (\<lambda>v. False)\<rparr>"

text \<open>
  A world in which nothing raises but every task has failed: \<^verbatim>\<open>result()\<close> hands back
  \<^verbatim>\<open>None\<close>.
\<close>

fun no_result :: "val \<Rightarrow> bool" where
  "no_result (VCall f as ks) = (case f of VAttr task a \<Rightarrow> a = ''result'' | _ \<Rightarrow> False)"
| "no_result v = False"

definition failed_tasks :: "unit world" where
  "failed_tasks = \<lparr>raises = (\<lambda>n e. None), count = (\<lambda>c. 0), absent = no_result\<rparr>"
section \<open>Unfolding\<close>

text \<open>The definitions of the cells, of the texts, of the named values and of the evaluator's steps.\<close>

lemmas cell_defs =
  cell_531458bc_def cell_74f36023_def cell_8fb7142f_def cell_5044bf8c_def cell_13f35368_def
  cell_1cc596be_def cell_a7951803_def cell_05e224e3_def cell_f123f0ab_def cell_9ee3dfb9_def
  cell_2755f581_def cell_138d5edd_def cell_2a21c9e7_def cell_26366ddd_def cell_d1f97f3f_def
  cell_4461b1a8_def cell_3d211790_def cell_9c42efc5_def cell_0ca70478_def cell_92ab8cf7_def
  cell_d5f76be2_def cell_15af3a32_def cell_7f348ffd_def cell_0f4a78a9_def cell_2b7aa936_def
  cell_aa1174eb_def cell_61317ba8_def OpenQASMProgram_of_def sv1_openqasm_action_def

lemmas value_defs =
  device_def sv1_dev_def dm1_dev_def aspen_m1_dev_def openqasm_class_def openqasm_program_def
  submitted_def result_of_def tracker_def jaqcd_program_def circuit_class_def circuit_h_def
  circuit_h_cnot_def sdk_circuit_def depolarizing_noise_def sv1_action_def read_sv1_action_def
  aspen_paradigm_def read_aspen_paradigm_def bell_task_def noisy_ghz3_circ_task_def
  noisy_ghz3_program_task_def unitary_task_def ghz_program_with_physical_qubits_task_def
  verbatim_task_def bell_result_types_task_def construct_device_def construct_program_def
  submit_def fetch_def submit_new_def native_gates_def result_types_def verbatim_meta_def
  estimated_cost_def events_sv1_field_def

lemmas step_defs =
  exec_block_def evaluate_def finish_def bind_def binding_def bound_name_def lookup_def
  builtins_def get_attr_def get_item_def call_def bin_op_def format_value_def elements_def
  raise_def record_event_def leave_file_def holds_def unshadowed_def


section \<open>Properties of the program texts\<close>

subsection \<open>The scanner\<close>

lemma starts_with_iff_prefix: "starts_with p s \<longleftrightarrow> prefix p s"
  by (induction p s rule: starts_with.induct) auto

lemma contains_iff_sublist: "contains p s \<longleftrightarrow> sublist p s"
proof (induction s)
  case Nil
  show ?case by simp
next
  case (Cons c cs)
  show ?case
    using Cons.IH by (simp add: starts_with_iff_prefix sublist_Cons_right del: starts_with.simps)
qed

text \<open>The texts the notebook binds, in cell order.\<close>

lemma program_texts_notebook:
  "program_texts notebook =
     [(''bell_qasm'', bell_qasm),
      (''noisy_ghz3_program'', noisy_ghz3_program),
      (''noisy_program_with_kraus_operators'', noisy_program_with_kraus_operators),
      (''program_with_unitary'', program_with_unitary),
      (''ghz_program_with_physical_qubits'', ghz_program_with_physical_qubits),
      (''program_with_verbatim_box'', program_with_verbatim_box),
      (''bell_with_result_type'', bell_with_result_type),
      (''program_with_non_simultaneously_measurable_result_types'',
       program_with_non_simultaneously_measurable_result_types)]"
  by (simp add: program_texts_def all_stmts_def top_level_def notebook_def cell_defs)

text \<open>Every line of every text has one of the scanner's forms.\<close>

lemma all_texts_scan:
  "list_all (\<lambda>(x, text). list_all (\<lambda>l. \<not> (case l of Unknown u \<Rightarrow> True | _ \<Rightarrow> False))
      (scan_program text)) (program_texts notebook)"
  unfolding program_texts_notebook by code_simp

subsection \<open>C6: the five vendor extensions\<close>

lemma noise_text: "demonstrates NoiseSimulation noisy_ghz3_program"
  by code_simp

lemma unitary_text: "demonstrates UnitaryInjection program_with_unitary"
  by code_simp

lemma rewiring_text: "demonstrates QubitRewiring ghz_program_with_physical_qubits"
  by code_simp

lemma verbatim_text: "demonstrates VerbatimCompilation program_with_verbatim_box"
  by code_simp

lemma result_text: "demonstrates ResultTypes bell_with_result_type"
  by code_simp

text \<open>
  C6. For each of the five feature categories (noise simulation, arbitrary unitary
  injection, qubit rewiring, verbatim compilation, result-type requests) some program
  text bound by the notebook contains the feature's directive: the braket pragma, or a
  physical-qubit operand for qubit rewiring.
\<close>

theorem every_feature_demonstrated:
  "\<forall>f. \<exists>(x, text) \<in> set (program_texts notebook). demonstrates f text"
proof
  fix f
  show "\<exists>(x, text) \<in> set (program_texts notebook). demonstrates f text"
    unfolding program_texts_notebook
    using noise_text unitary_text rewiring_text verbatim_text result_text
    by (cases f) simp_all
qed

subsection \<open>C9: the Kraus example\<close>

lemma kraus_registers: "qubit_registers noisy_program_with_kraus_operators = [(''q'', Some 2)]"
  by code_simp

lemma kraus_cnot_line:
  "scan_program noisy_program_with_kraus_operators ! 9
     = Gate ''cnot'' [] [Indexed ''q'' 1, Indexed ''q'' 2]"
  by code_simp

lemma kraus_out_of_bounds:
  "out_of_bounds noisy_program_with_kraus_operators = [Indexed ''q'' 2]"
  by code_simp

lemma other_texts_in_bounds:
  "list_all (\<lambda>text. out_of_bounds text = [])
     [bell_qasm, noisy_ghz3_program, program_with_unitary, ghz_program_with_physical_qubits,
      program_with_verbatim_box, bell_with_result_type,
      program_with_non_simultaneously_measurable_result_types]"
  by code_simp

lemma loaded_names_notebook:
  "set (loaded_names notebook) =
     {''Tracker'', ''Program'', ''H'', ''CNot'', ''print'', ''program'', ''AwsDevice'',
      ''OpenQASMProgram'', ''bell_qasm'', ''sv1'', ''bell_program'', ''open'', ''f'',
      ''Circuit'', ''Noise'', ''noisy_ghz3_circ'', ''noise'', ''dm1'', ''noisy_ghz3_program'',
      ''noisy_ghz3_circ_task'', ''noisy_ghz3_program_task'', ''sdk_result'',
      ''openqasm_result'', ''sdk_measurement'', ''openqasm_measurement'',
      ''program_with_unitary'', ''unitary_task'', ''unitary_result'', ''aspen_m1'',
      ''ghz_program_with_physical_qubits'', ''ghz_program_with_physical_qubits_task'',
      ''measured_qubits'', ''gate'', ''nx'', ''program_with_verbatim_box'', ''verbatim_task'',
      ''verbatim_result'', ''meta'', ''iter'', ''bell_with_result_type'',
      ''bell_result_types_task'', ''bell_result'', ''values'', ''t''}"
  by (simp add: loaded_names_def all_exprs_def all_stmts_def top_level_def notebook_def
      cell_defs insert_commute)

text \<open>
  C9, as the claim states it, speaks of the Kraus example as a payload the notebook
  submits. The notebook binds the text to \<^verbatim>\<open>noisy_program_with_kraus_operators\<close> and
  never reads that variable again: it is no payload of any call.
\<close>

theorem kraus_program_never_read:
  "(''noisy_program_with_kraus_operators'', noisy_program_with_kraus_operators)
     \<in> set (program_texts notebook)
   \<and> ''noisy_program_with_kraus_operators'' \<notin> set (loaded_names notebook)"
  unfolding program_texts_notebook loaded_names_notebook by simp

text \<open>
  C9, amended. The Kraus example text, which the notebook defines and never submits, is
  inconsistent with itself: it declares the one register \<^verbatim>\<open>qubit[2] q\<close> and its tenth
  line applies \<^verbatim>\<open>cnot q[1], q[2]\<close>; the operand \<^verbatim>\<open>q[2]\<close> is the one operand of the
  text outside the declared register.
\<close>

theorem kraus_program_index_out_of_bounds:
  "(''noisy_program_with_kraus_operators'', noisy_program_with_kraus_operators)
     \<in> set (program_texts notebook)
   \<and> ''noisy_program_with_kraus_operators'' \<notin> set (loaded_names notebook)
   \<and> qubit_registers noisy_program_with_kraus_operators = [(''q'', Some 2)]
   \<and> scan_program noisy_program_with_kraus_operators ! 9
        = Gate ''cnot'' [] [Indexed ''q'' 1, Indexed ''q'' 2]
   \<and> \<not> in_bounds (qubit_registers noisy_program_with_kraus_operators) (Indexed ''q'' 2)
   \<and> out_of_bounds noisy_program_with_kraus_operators = [Indexed ''q'' 2]"
  unfolding program_texts_notebook loaded_names_notebook
  by (simp add: kraus_registers kraus_cnot_line kraus_out_of_bounds)

subsection \<open>C10: the noisy GHZ program and the SDK circuit\<close>

lemma noisy_ghz3_circ_is_output: "noisy_ghz3_circ = noisy_ghz3_circ_output"
  by (simp add: noisy_ghz3_circ_def noisy_ghz3_circ_output_def apply_gate_noise_def
      cnot_def h_def Circuit_def)

lemma noisy_ghz3_program_instructions:
  "instructions_of noisy_ghz3_program =
     Some [Instruction H [0],
           Instruction (Depolarizing ''0.1'') [0],
           Instruction CNot [0, 1],
           Instruction (Depolarizing ''0.1'') [0],
           Instruction (Depolarizing ''0.1'') [1],
           Instruction CNot [1, 2],
           Instruction (Depolarizing ''0.1'') [0],
           Instruction (Depolarizing ''0.1'') [1]]"
  by code_simp

text \<open>
  C10 fails on the notebook. The text and the circuit have the same gates in the same
  order, and the same noise after the first two gates; after \<^verbatim>\<open>cnot q[1], q[2]\<close> the
  text puts the depolarizing channels on qubits 0 and 1, the SDK circuit (as built, and
  as the cell recorded it) on the gate's own qubits 1 and 2.
\<close>

theorem noisy_ghz3_program_differs_from_circ:
  "instructions_of noisy_ghz3_program \<noteq> Some noisy_ghz3_circ
   \<and> instructions_of noisy_ghz3_program \<noteq> Some noisy_ghz3_circ_output
   \<and> map_option (filter is_gate) (instructions_of noisy_ghz3_program)
        = Some (filter is_gate noisy_ghz3_circ)
   \<and> map_option (take 6) (instructions_of noisy_ghz3_program) = Some (take 6 noisy_ghz3_circ)
   \<and> map_option (drop 6) (instructions_of noisy_ghz3_program)
        = Some [Instruction (Depolarizing ''0.1'') [0], Instruction (Depolarizing ''0.1'') [1]]
   \<and> drop 6 noisy_ghz3_circ
        = [Instruction (Depolarizing ''0.1'') [1], Instruction (Depolarizing ''0.1'') [2]]"
  unfolding noisy_ghz3_program_instructions noisy_ghz3_circ_is_output
  by (simp add: noisy_ghz3_circ_output_def)

section \<open>The error-free run\<close>

text \<open>
  In a quiet world the notebook runs to its end, and the run is the same for
  every such world up to the number of elements of the two collections it prints. Each
  code cell is run from an arbitrary state that binds what the cell reads; the cells are
  then chained.
\<close>

lemma perform_quiet:
  "quiet w \<Longrightarrow> perform w evs st = State (env st) (trace st @ evs) (raised st)"
  by (induction evs arbitrary: st) (auto simp: quiet_def record_event_def)

lemma answer_quiet: "quiet w \<Longrightarrow> answer (absent w) v = v"
  by (simp add: quiet_def answer_def)

lemmas quiet_steps = perform_quiet answer_quiet

lemma exec_block_Nil: "exec_block w st [] = st"
  by (simp add: exec_block_def)

lemma exec_block_append:
  "exec_block w st (ss @ ts) = exec_block w (exec_block w st ss) ts"
  by (simp add: exec_block_def)

lemma map_of_bind_each:
  "y \<noteq> x \<Longrightarrow> map_of (bind_each x c n @ E) y = map_of E y"
  unfolding bind_each_def by (induction n) auto

lemma bind_each_Suc: "bind_each x c (Suc n) = (x, VElem c n) # bind_each x c n"
  by (simp add: bind_each_def)

lemma print_each_Suc: "print_each c (Suc n) = print_each c n @ [EPrint [VElem c n]]"
  by (simp add: print_each_def)

text \<open>A loop that prints each element of a library collection.\<close>

lemma print_loop:
  assumes q: "quiet w" and r: "raised st = None" and u: "unshadowed st" and x: "x \<noteq> ''print''"
  shows "foldl (\<lambda>s v. if raised s \<noteq> None then s
                  else foldl (\<lambda>s c. if raised s \<noteq> None then s else exec w s c) (bind x v s)
                         [Expr (Call (Name ''print'') [Name x] [])])
      st (map (VElem c) [0..<n])
    = State (bind_each x c n @ env st) (trace st @ print_each c n) None"
proof (induction n)
  case 0
  show ?case using r by (cases st) (simp add: bind_each_def print_each_def)
next
  case (Suc n)
  have x': "''print'' \<noteq> x" using x by blast
  have p: "map_of (bind_each x c n @ env st) ''print'' = None"
    unfolding map_of_bind_each[OF x'] using u by (simp add: unshadowed_def)
  show ?case
    using Suc x'
    by (simp add: step_defs quiet_steps[OF q] bind_each_Suc print_each_Suc p
        del: perform.simps map_of_append)
qed

subsection \<open>The cells\<close>

lemma run_text_cell:
  "raised st = None \<Longrightarrow>
   exec_block w st [Assign (Name x) (Str s)] = State ((x, VStr s) # env st) (trace st) None"
  by (cases st) (simp add: step_defs)

lemma run_531458bc:
  assumes "quiet w" and "raised st = None"
  shows "exec_block w st (stmts_of_cell cell_531458bc)
           = State (binds_531458bc @ env st) (trace st @ events_531458bc) None"
  using assms(2)
  by (simp add: step_defs quiet_steps[OF assms(1)] cell_defs value_defs
      binds_531458bc_def events_531458bc_def del: perform.simps)

lemma run_8fb7142f:
  assumes "quiet w" and "raised st = None" and "unshadowed st"
  shows "exec_block w st (stmts_of_cell cell_8fb7142f)
           = State (binds_8fb7142f @ env st) (trace st @ events_8fb7142f) None"
  using assms(2,3)
  by (simp add: step_defs quiet_steps[OF assms(1)] cell_defs value_defs
      binds_8fb7142f_def events_8fb7142f_def del: perform.simps)

lemma run_5044bf8c:
  assumes "quiet w" and "raised st = None"
  shows "exec_block w st (stmts_of_cell cell_5044bf8c)
           = State (binds_5044bf8c @ env st) (trace st @ events_5044bf8c) None"
  using assms(2)
  by (simp add: step_defs quiet_steps[OF assms(1)] cell_defs value_defs
      binds_5044bf8c_def events_5044bf8c_def del: perform.simps)

lemma run_13f35368:
  assumes "quiet w" and "raised st = None" and "holds st reads_13f35368"
  shows "exec_block w st (stmts_of_cell cell_13f35368)
           = State (binds_13f35368 @ env st) (trace st @ events_13f35368) None"
  using assms(2,3)
  by (simp add: step_defs quiet_steps[OF assms(1)] cell_defs value_defs
      reads_13f35368_def binds_13f35368_def events_13f35368_def del: perform.simps)

lemma run_1cc596be:
  assumes "quiet w" and "raised st = None" and "unshadowed st" and "holds st reads_1cc596be"
  shows "exec_block w st (stmts_of_cell cell_1cc596be)
           = State (binds_1cc596be @ env st) (trace st @ events_1cc596be) None"
  using assms(2,3,4)
  by (simp add: step_defs quiet_steps[OF assms(1)] cell_defs value_defs
      reads_1cc596be_def binds_1cc596be_def events_1cc596be_def del: perform.simps)

lemma run_a7951803:
  assumes "quiet w" and "raised st = None" and "holds st reads_sv1"
  shows "exec_block w st (stmts_of_cell cell_a7951803)
           = State (env st) (trace st @ events_sv1_field ''supportedOperations'') None"
  using assms(2,3)
  by (simp add: step_defs quiet_steps[OF assms(1)] cell_defs value_defs reads_sv1_def
      del: perform.simps)

lemma run_05e224e3:
  assumes "quiet w" and "raised st = None" and "holds st reads_sv1"
  shows "exec_block w st (stmts_of_cell cell_05e224e3)
           = State (env st) (trace st @ events_sv1_field ''supportedPragmas'') None"
  using assms(2,3)
  by (simp add: step_defs quiet_steps[OF assms(1)] cell_defs value_defs reads_sv1_def
      del: perform.simps)

lemma run_f123f0ab:
  assumes "quiet w" and "raised st = None" and "holds st reads_sv1"
  shows "exec_block w st (stmts_of_cell cell_f123f0ab)
           = State (env st) (trace st @ events_sv1_field ''forbiddenPragmas'') None"
  using assms(2,3)
  by (simp add: step_defs quiet_steps[OF assms(1)] cell_defs value_defs reads_sv1_def
      del: perform.simps)

lemma run_2755f581:
  assumes "quiet w" and "raised st = None"
  shows "exec_block w st (stmts_of_cell cell_2755f581)
           = State (binds_2755f581 @ env st) (trace st @ events_2755f581) None"
  using assms(2)
  by (simp add: step_defs quiet_steps[OF assms(1)] cell_defs value_defs
      binds_2755f581_def events_2755f581_def del: perform.simps)

lemma run_138d5edd:
  assumes "quiet w" and "raised st = None" and "holds st reads_138d5edd"
  shows "exec_block w st (stmts_of_cell cell_138d5edd)
           = State (binds_138d5edd @ env st) (trace st @ events_138d5edd) None"
  using assms(2,3)
  by (simp add: step_defs quiet_steps[OF assms(1)] cell_defs value_defs
      reads_138d5edd_def binds_138d5edd_def events_138d5edd_def del: perform.simps)

lemma run_2a21c9e7:
  assumes "quiet w" and "raised st = None" and "unshadowed st" and "holds st reads_2a21c9e7"
  shows "exec_block w st (stmts_of_cell cell_2a21c9e7)
           = State (binds_2a21c9e7 @ env st) (trace st @ events_2a21c9e7) None"
  using assms(2,3,4)
  by (simp add: step_defs quiet_steps[OF assms(1)] cell_defs value_defs
      reads_2a21c9e7_def binds_2a21c9e7_def events_2a21c9e7_def del: perform.simps)

lemma run_4461b1a8:
  assumes "quiet w" and "raised st = None" and "unshadowed st" and "holds st reads_4461b1a8"
  shows "exec_block w st (stmts_of_cell cell_4461b1a8)
           = State (binds_4461b1a8 @ env st) (trace st @ events_4461b1a8) None"
  using assms(2,3,4)
  by (simp add: step_defs quiet_steps[OF assms(1)] cell_defs value_defs
      reads_4461b1a8_def binds_4461b1a8_def events_4461b1a8_def del: perform.simps)

lemma run_9c42efc5:
  assumes "quiet w" and "raised st = None" and "unshadowed st" and "holds st reads_9c42efc5"
  shows "exec_block w st (stmts_of_cell cell_9c42efc5)
           = State (binds_9c42efc5 @ env st) (trace st @ events_9c42efc5) None"
  using assms(2,3,4)
  by (simp add: step_defs quiet_steps[OF assms(1)] cell_defs value_defs
      reads_9c42efc5_def binds_9c42efc5_def events_9c42efc5_def del: perform.simps)

lemma run_92ab8cf7:
  assumes "quiet w" and "raised st = None" and "unshadowed st" and "holds st reads_aspen"
  shows "exec_block w st (stmts_of_cell cell_92ab8cf7)
           = State (bind_each ''gate'' native_gates (count w native_gates) @ env st)
               (trace st @ events_92ab8cf7 (count w native_gates)) None"
proof -
  let ?st = "State (env st)
      (trace st @ [EGetAttr aspen_m1_dev ''name'',
         EPrint [VStr ''The native gates for the'', VAttr aspen_m1_dev ''name'', VStr ''device are:'']]
        @ read_aspen_paradigm @ [EGetAttr aspen_paradigm ''nativeGateSet'', EIter native_gates])
      None"
  have u: "unshadowed ?st" using assms(3) by (simp add: unshadowed_def)
  have loop: "foldl (\<lambda>s v. if raised s \<noteq> None then s
                  else foldl (\<lambda>s c. if raised s \<noteq> None then s else exec w s c)
                         (bind ''gate'' v s) [Expr (Call (Name ''print'') [Name ''gate''] [])])
      ?st (map (VElem native_gates) [0..<count w native_gates])
    = State (bind_each ''gate'' native_gates (count w native_gates) @ env ?st)
        (trace ?st @ print_each native_gates (count w native_gates)) None"
    using print_loop[OF assms(1) _ u, of "''gate''" native_gates "count w native_gates"]
    by simp
  show ?thesis
    using assms(2,3,4) loop
    by (simp add: step_defs quiet_steps[OF assms(1)] cell_defs value_defs
        reads_aspen_def events_92ab8cf7_def del: perform.simps)
qed

lemma run_d5f76be2:
  assumes "quiet w" and "raised st = None" and "unshadowed st" and "holds st reads_aspen"
  shows "exec_block w st (stmts_of_cell cell_d5f76be2)
           = State (binds_d5f76be2 @ env st) (trace st @ events_d5f76be2) None"
  using assms(2,3,4)
  by (simp add: step_defs quiet_steps[OF assms(1)] cell_defs value_defs
      reads_aspen_def binds_d5f76be2_def events_d5f76be2_def del: perform.simps)

lemma run_15af3a32:
  assumes "quiet w" and "raised st = None" and "unshadowed st" and "holds st reads_15af3a32"
  shows "exec_block w st (stmts_of_cell cell_15af3a32)
           = State (binds_15af3a32 @ env st) (trace st @ events_15af3a32) None"
  using assms(2,3,4)
  by (simp add: step_defs quiet_steps[OF assms(1)] cell_defs value_defs
      reads_15af3a32_def binds_15af3a32_def events_15af3a32_def del: perform.simps)

lemma run_7f348ffd:
  assumes "quiet w" and "raised st = None" and "unshadowed st" and "holds st reads_sv1"
  shows "exec_block w st (stmts_of_cell cell_7f348ffd)
           = State (bind_each ''iter'' result_types (count w result_types) @ env st)
               (trace st @ events_7f348ffd (count w result_types)) None"
proof -
  let ?st = "State (env st)
      (trace st @ events_sv1_field ''supportedResultTypes'' @ [EIter result_types]) None"
  have u: "unshadowed ?st" using assms(3) by (simp add: unshadowed_def)
  have loop: "foldl (\<lambda>s v. if raised s \<noteq> None then s
                  else foldl (\<lambda>s c. if raised s \<noteq> None then s else exec w s c)
                         (bind ''iter'' v s) [Expr (Call (Name ''print'') [Name ''iter''] [])])
      ?st (map (VElem result_types) [0..<count w result_types])
    = State (bind_each ''iter'' result_types (count w result_types) @ env ?st)
        (trace ?st @ print_each result_types (count w result_types)) None"
    using print_loop[OF assms(1) _ u, of "''iter''" result_types "count w result_types"]
    by simp
  show ?thesis
    using assms(2,3,4) loop
    by (simp add: step_defs quiet_steps[OF assms(1)] cell_defs value_defs
        reads_sv1_def events_7f348ffd_def del: perform.simps)
qed

lemma run_2b7aa936:
  assumes "quiet w" and "raised st = None" and "unshadowed st" and "holds st reads_2b7aa936"
  shows "exec_block w st (stmts_of_cell cell_2b7aa936)
           = State (binds_2b7aa936 @ env st) (trace st @ events_2b7aa936) None"
  using assms(2,3,4)
  by (simp add: step_defs quiet_steps[OF assms(1)] cell_defs value_defs
      reads_2b7aa936_def binds_2b7aa936_def events_2b7aa936_def del: perform.simps)

lemma run_61317ba8:
  assumes "quiet w" and "raised st = None" and "unshadowed st" and "holds st reads_61317ba8"
  shows "exec_block w st (stmts_of_cell cell_61317ba8)
           = State (env st) (trace st @ events_61317ba8) None"
  using assms(2,3,4)
  by (simp add: step_defs quiet_steps[OF assms(1)] cell_defs value_defs
      reads_61317ba8_def events_61317ba8_def del: perform.simps)

subsection \<open>The whole notebook\<close>

lemma top_level_notebook:
  "top_level notebook =
     stmts_of_cell cell_531458bc @ stmts_of_cell cell_74f36023 @ stmts_of_cell cell_8fb7142f
     @ stmts_of_cell cell_5044bf8c @ stmts_of_cell cell_13f35368 @ stmts_of_cell cell_1cc596be
     @ stmts_of_cell cell_a7951803 @ stmts_of_cell cell_05e224e3 @ stmts_of_cell cell_f123f0ab
     @ stmts_of_cell cell_9ee3dfb9 @ stmts_of_cell cell_2755f581 @ stmts_of_cell cell_138d5edd
     @ stmts_of_cell cell_2a21c9e7 @ stmts_of_cell cell_26366ddd @ stmts_of_cell cell_d1f97f3f
     @ stmts_of_cell cell_4461b1a8 @ stmts_of_cell cell_3d211790 @ stmts_of_cell cell_9c42efc5
     @ stmts_of_cell cell_0ca70478 @ stmts_of_cell cell_92ab8cf7 @ stmts_of_cell cell_d5f76be2
     @ stmts_of_cell cell_15af3a32 @ stmts_of_cell cell_7f348ffd @ stmts_of_cell cell_0f4a78a9
     @ stmts_of_cell cell_2b7aa936 @ stmts_of_cell cell_aa1174eb @ stmts_of_cell cell_61317ba8"
  by (simp add: top_level_def notebook_def)

lemma text_cells:
  "stmts_of_cell cell_74f36023 = [Assign (Name ''bell_qasm'') (Str bell_qasm)]"
  "stmts_of_cell cell_9ee3dfb9 = [Assign (Name ''noisy_ghz3_program'') (Str noisy_ghz3_program)]"
  "stmts_of_cell cell_26366ddd =
     [Assign (Name ''noisy_program_with_kraus_operators'') (Str noisy_program_with_kraus_operators)]"
  "stmts_of_cell cell_d1f97f3f = [Assign (Name ''program_with_unitary'') (Str program_with_unitary)]"
  "stmts_of_cell cell_3d211790 =
     [Assign (Name ''ghz_program_with_physical_qubits'') (Str ghz_program_with_physical_qubits)]"
  "stmts_of_cell cell_0ca70478 =
     [Assign (Name ''program_with_verbatim_box'') (Str program_with_verbatim_box)]"
  "stmts_of_cell cell_0f4a78a9 = [Assign (Name ''bell_with_result_type'') (Str bell_with_result_type)]"
  "stmts_of_cell cell_aa1174eb =
     [Assign (Name ''program_with_non_simultaneously_measurable_result_types'')
        (Str program_with_non_simultaneously_measurable_result_types)]"
  by (simp_all add: cell_defs)

lemmas cell_runs =
  run_531458bc run_8fb7142f run_5044bf8c run_13f35368 run_1cc596be run_a7951803 run_05e224e3
  run_f123f0ab run_2755f581 run_138d5edd run_2a21c9e7 run_4461b1a8 run_9c42efc5 run_92ab8cf7
  run_d5f76be2 run_15af3a32 run_7f348ffd run_2b7aa936 run_61317ba8

lemmas summary_defs =
  binds_531458bc_def binds_8fb7142f_def binds_5044bf8c_def binds_13f35368_def
  binds_1cc596be_def binds_2755f581_def binds_138d5edd_def binds_2a21c9e7_def
  binds_4461b1a8_def binds_9c42efc5_def binds_d5f76be2_def binds_15af3a32_def
  binds_2b7aa936_def reads_13f35368_def reads_1cc596be_def reads_sv1_def reads_138d5edd_def
  reads_2a21c9e7_def reads_4461b1a8_def reads_9c42efc5_def reads_aspen_def reads_15af3a32_def
  reads_2b7aa936_def reads_61317ba8_def

text \<open>
  The error-free run: in every quiet world the notebook runs
  to its end with the bindings \<open>quiet_env\<close> and the trace \<open>quiet_trace\<close>.
\<close>

lemma quiet_run:
  assumes q: "quiet w"
  shows "run w notebook = State (quiet_env (count w)) (quiet_trace (count w)) None"
  unfolding run_def top_level_notebook text_cells exec_block_append
  by (simp add: cell_runs[OF q] run_text_cell initial_def holds_def unshadowed_def
      summary_defs map_of_bind_each quiet_env_def quiet_trace_def del: map_of_append)

section \<open>The claims about the run\<close>








subsection \<open>C1: what is submitted\<close>






subsection \<open>C2: the order of the steps\<close>









subsection \<open>C3: the texts are passed on unchanged\<close>




lemma notebook_text_reads:
  "text_reads notebook =
     [''bell_qasm'', ''bell_qasm'', ''noisy_ghz3_program'', ''program_with_unitary'',
      ''ghz_program_with_physical_qubits'', ''program_with_verbatim_box'',
      ''bell_with_result_type'']"
  unfolding text_reads_def text_names_def program_texts_notebook
  by (simp add: loaded_names_def all_exprs_def all_stmts_def top_level_def notebook_def cell_defs)

lemma notebook_texts_handed_on:
  "texts_handed_on notebook =
     [''bell_qasm'', ''bell_qasm'', ''noisy_ghz3_program'', ''program_with_unitary'',
      ''ghz_program_with_physical_qubits'', ''program_with_verbatim_box'',
      ''bell_with_result_type'']"
  unfolding texts_handed_on_def text_names_def program_texts_notebook
  by (simp add: all_exprs_def all_stmts_def top_level_def notebook_def cell_defs)




subsection \<open>C5: the effects of a run\<close>







lemma notebook_stmt_kinds:
  "filter (\<lambda>k. k \<notin> {KImport, KAssign, KExpr}) (stmt_kinds notebook) = [KWith, KFor, KFor]"
  by (simp add: stmt_kinds_def all_stmts_def top_level_def notebook_def cell_defs)




subsection \<open>C7: sequential calls, several tasks outstanding\<close>



lemma notebook_no_async:
  "filter is_async_stmt (all_stmts notebook) = []" "filter is_await (all_exprs notebook) = []"
  "filter is_lambda (all_exprs notebook) = []"
  by (simp_all add: all_exprs_def all_stmts_def top_level_def notebook_def cell_defs)


lemma notebook_stores: "stores notebook = []"
  by (simp add: stores_def all_stmts_def top_level_def notebook_def cell_defs)




subsection \<open>C8: the shape of the code\<close>

lemma notebook_carried:
  "carried notebook =
     [''bell_qasm'', ''noisy_ghz3_circ'', ''noisy_ghz3_program'', ''noisy_ghz3_circ_task'',
      ''noisy_ghz3_program_task'', ''dm1'', ''program_with_unitary'', ''AwsDevice'',
      ''ghz_program_with_physical_qubits'', ''aspen_m1'', ''program_with_verbatim_box'', ''sv1'',
      ''OpenQASMProgram'', ''bell_with_result_type'', ''t'']"
  by code_simp

text \<open>
  C8 as stated fails: the notebook does hold state across cells. The cost tracker
  \<^verbatim>\<open>t\<close> is bound in the first code cell and read in the last.
\<close>

theorem tracker_is_carried_across_cells:
  "''t'' \<in> set (cell_binds cell_531458bc)
   \<and> ''t'' \<in> set (carried_into notebook cell_61317ba8)
   \<and> ''t'' \<in> set (carried notebook)"
  unfolding notebook_carried
  by (simp add: carried_into_def cell_binds_def cell_reads_def stmt_exprs_def
      all_bound_names_def all_stmts_def top_level_def notebook_def cell_defs bound_name_def)

text \<open>
  C8, amended. The notebook defines no function, coroutine or class, has no
  \<^verbatim>\<open>await\<close> and no \<^verbatim>\<open>lambda\<close>, no conditional, \<^verbatim>\<open>while\<close> loop or exception handler:
  besides imports, assignments and expression statements it has one \<^verbatim>\<open>with\<close> and two
  \<^verbatim>\<open>for\<close> statements. No assignment stores into an attribute or an item, so it ties no
  object to another and builds no cycle. It does keep state across cells: fifteen names
  are bound in one cell and read in another.
\<close>

theorem shape_of_the_code:
  "filter (\<lambda>k. k \<notin> {KImport, KAssign, KExpr}) (stmt_kinds notebook) = [KWith, KFor, KFor]
   \<and> filter is_await (all_exprs notebook) = []
   \<and> filter is_lambda (all_exprs notebook) = []
   \<and> stores notebook = []
   \<and> carried notebook =
       [''bell_qasm'', ''noisy_ghz3_circ'', ''noisy_ghz3_program'', ''noisy_ghz3_circ_task'',
        ''noisy_ghz3_program_task'', ''dm1'', ''program_with_unitary'', ''AwsDevice'',
        ''ghz_program_with_physical_qubits'', ''aspen_m1'', ''program_with_verbatim_box'',
        ''sv1'', ''OpenQASMProgram'', ''bell_with_result_type'', ''t'']"
  using notebook_stmt_kinds notebook_no_async notebook_stores notebook_carried by simp

subsection \<open>C4: errors of the world reach the user unchanged\<close>

text \<open>
  A run in a world \<open>w\<close> is compared, part by part, with the run in the hushed world.
\<close>

lemma skip_raised:
  "raised st \<noteq> None \<Longrightarrow> foldl (\<lambda>s c. if raised s \<noteq> None then s else f s c) st cs = st"
  by (induction cs) auto

lemma follows_refl: "raised st = None \<Longrightarrow> follows w st st st"
  by (auto simp: follows_def failure_free_def)

lemma follows_same_trace:
  "follows w st a b \<Longrightarrow> trace st2 = trace st \<Longrightarrow> follows w st2 a b"
  by (auto simp: follows_def split: option.splits exn.splits)

lemma follows_None:
  "follows w st s s0 \<Longrightarrow> raised s = None \<Longrightarrow>
   failure_free w (trace s) (length (trace st)) (length (trace s))"
  by (auto simp: follows_def)

lemma unwinding_end: "unwinding tr (length tr)"
  by (simp add: unwinding_def)

lemma unwinding_close: "m \<le> length tr \<Longrightarrow> unwinding tr m \<Longrightarrow> unwinding (tr @ [EClose n]) m"
  by (simp add: unwinding_def)

lemma failure_free_longer:
  "failure_free w tr a b \<Longrightarrow> b \<le> length tr \<Longrightarrow> failure_free w (tr @ evs) a b"
  by (simp add: failure_free_def nth_append)

lemma follows_Internal:
  assumes "follows w st s s0" and "raised s = Some (Internal p)"
  obtains m where "raised s0 = Some (Internal p)" and "length (trace st) \<le> m"
    and "m \<le> length (trace s)" and "failure_free w (trace s) (length (trace st)) m"
    and "unwinding (trace s) m"
  using assms by (auto simp: follows_def)

lemma follows_InternalI:
  assumes "\<exists>evs. trace s = trace st @ evs" and "raised s = Some (Internal p)"
    and "raised s0 = Some (Internal p)" and "length (trace st) \<le> m"
    and "m \<le> length (trace s)" and "failure_free w (trace s) (length (trace st)) m"
    and "unwinding (trace s) m"
  shows "follows w st s s0"
  using assms by (auto simp: follows_def)

lemma failure_free_join:
  assumes "failure_free w tr1 a b" and "failure_free w (tr1 @ evs) b c"
    and "b \<le> length tr1"
  shows "failure_free w (tr1 @ evs) a c"
  unfolding failure_free_def
proof (intro allI impI)
  fix n assume n: "a \<le> n \<and> n < c"
  show "raises w n ((tr1 @ evs) ! n) = None"
  proof (cases "n < b")
    case True
    then have "(tr1 @ evs) ! n = tr1 ! n" using assms(3) by (simp add: nth_append)
    then show ?thesis using assms(1) n True by (simp add: failure_free_def)
  next
    case False
    then show ?thesis using assms(2) n by (simp add: failure_free_def)
  qed
qed

lemma follows_trans:
  assumes a: "follows w st s1 s1" and r: "raised s1 = None" and b: "follows w s1 s2 s20"
  shows "follows w st s2 s20"
proof -
  from a obtain e1 where e1: "trace s1 = trace st @ e1" by (auto simp: follows_def)
  from b obtain e2 where e2: "trace s2 = trace s1 @ e2" by (auto simp: follows_def)
  have ff1: "failure_free w (trace s1) (length (trace st)) (length (trace s1))"
    using a r by (simp add: follows_def)
  have pre: "\<exists>evs. trace s2 = trace st @ evs" using e1 e2 by simp
  show ?thesis
  proof (cases "raised s2")
    case None
    with b have "s2 = s20 \<and> failure_free w (trace s2) (length (trace s1)) (length (trace s2))"
      unfolding follows_def by auto
    then have eq: "s2 = s20"
      and ff2: "failure_free w (trace s2) (length (trace s1)) (length (trace s2))"
      by blast+
    have "failure_free w (trace s1 @ e2) (length (trace st)) (length (trace s2))"
      by (rule failure_free_join[OF ff1]) (use ff2 e2 in simp_all)
    then show ?thesis using None eq pre e2 by (simp add: follows_def)
  next
    case (Some ex)
    show ?thesis
    proof (cases ex)
      case (Internal p)
      from b Some Internal obtain m where m: "raised s20 = Some (Internal p)"
          "length (trace s1) \<le> m" "m \<le> length (trace s2)"
          "failure_free w (trace s2) (length (trace s1)) m" "unwinding (trace s2) m"
        by (auto elim: follows_Internal)
      have "failure_free w (trace s1 @ e2) (length (trace st)) m"
        by (rule failure_free_join[OF ff1]) (use m e2 in simp_all)
      then have ff: "failure_free w (trace s2) (length (trace st)) m" using e2 by simp
      have le: "length (trace st) \<le> m" using m(2) e1 by simp
      show ?thesis
        using Some Internal by (intro follows_InternalI[OF pre _ m(1) le m(3) ff m(5)]) simp
    next
      case (External x)
      then obtain n where n: "length (trace s1) \<le> n" "n < length (trace s2)"
          "raises w n (trace s2 ! n) = Some x" "failure_free w (trace s2) (length (trace s1)) n"
        using Some b by (auto simp: follows_def)
      have "failure_free w (trace s1 @ e2) (length (trace st)) n"
        by (rule failure_free_join[OF ff1]) (use n e2 in simp_all)
      moreover have "length (trace st) \<le> n" using n(1) e1 by simp
      ultimately show ?thesis using Some External pre n e2 by (auto simp: follows_def)
    qed
  qed
qed

lemma absent_hush: "absent (hush w) = absent w"
  by (simp add: hush_def)

lemma perform_hush: "perform (hush w) evs st = State (env st) (trace st @ evs) (raised st)"
  by (induction evs arbitrary: st) (auto simp: hush_def record_event_def)

lemma perform_follows:
  "raised st = None \<Longrightarrow> follows w st (perform w evs st) (perform (hush w) evs st)"
proof (induction evs arbitrary: st)
  case Nil
  then show ?case by (simp add: follows_refl)
next
  case (Cons e evs)
  let ?s1 = "record_event e st"
  have r1: "raised ?s1 = None" using Cons.prems by (simp add: record_event_def)
  show ?case
  proof (cases "raises w (length (trace st)) e")
    case (Some x)
    then show ?thesis
      using Cons.prems
      by (auto simp: follows_def failure_free_def record_event_def raise_def nth_append)
  next
    case None
    have step: "follows w st ?s1 ?s1"
      using Cons.prems None
      by (auto simp: follows_def failure_free_def record_event_def nth_append
          dest: le_neq_implies_less)
    have rest: "follows w ?s1 (perform w evs ?s1) (perform (hush w) evs ?s1)"
      by (rule Cons.IH[OF r1])
    have "follows w st (perform w evs ?s1) (perform (hush w) evs ?s1)"
      by (rule follows_trans[OF step r1 rest])
    moreover have "perform (hush w) (e # evs) st = perform (hush w) evs ?s1"
      by (simp add: hush_def)
    ultimately show ?thesis using None by simp
  qed
qed

lemma finish_None_iff: "snd (finish r st) = None \<longleftrightarrow> raised (fst (finish r st)) \<noteq> None"
  by (cases r) (auto simp: finish_def raise_def)

lemma finish_follows:
  assumes "follows w st s1 s10"
  shows "follows w st (fst (finish r s1)) (fst (finish r s10))
         \<and> (raised (fst (finish r s1)) = None \<longrightarrow> finish r s1 = finish r s10)"
proof (cases "raised s1")
  case None
  then have eq: "s1 = s10" using assms by (auto simp: follows_def)
  show ?thesis
  proof (cases r)
    case (Inl err)
    have ff: "failure_free w (trace s1) (length (trace st)) (length (trace s1))"
      and pre: "\<exists>evs. trace s1 = trace st @ evs"
      using assms None by (auto simp: follows_def)
    have "follows w st (raise (Internal err) s1) (raise (Internal err) s1)"
      by (rule follows_InternalI[where m = "length (trace s1)" and p = err])
        (use ff pre in \<open>auto simp: raise_def unwinding_end\<close>)
    then show ?thesis using None eq Inl by (simp add: finish_def raise_def)
  next
    case (Inr v)
    then show ?thesis using assms None eq by (simp add: finish_def)
  qed
next
  case (Some ex)
  then show ?thesis
    using assms
    by (cases ex) (auto simp: finish_def follows_def)
qed

lemma evaluate_None_iff:
  "snd (evaluate w e st) = None \<longleftrightarrow> raised (fst (evaluate w e st)) \<noteq> None"
  by (simp add: evaluate_def finish_None_iff split: prod.splits)

lemma evaluate_follows:
  assumes "raised st = None"
  shows "follows w st (fst (evaluate w e st)) (fst (evaluate (hush w) e st))
         \<and> (raised (fst (evaluate w e st)) = None \<longrightarrow> evaluate w e st = evaluate (hush w) e st)"
  using finish_follows[OF perform_follows[OF assms]]
  by (simp add: evaluate_def absent_hush split: prod.splits)

lemma fold_follows:
  assumes step: "\<And>s c. c \<in> set cs \<Longrightarrow> raised s = None \<Longrightarrow> follows w s (f s c) (g s c)"
    and r: "raised st = None"
  shows "follows w st (foldl (\<lambda>s c. if raised s \<noteq> None then s else f s c) st cs)
                      (foldl (\<lambda>s c. if raised s \<noteq> None then s else g s c) st cs)"
  using step r
proof (induction cs arbitrary: st)
  case Nil
  then show ?case by (simp add: follows_refl)
next
  case (Cons c cs)
  let ?F = "\<lambda>s c. if raised s \<noteq> None then s else f s c"
  let ?G = "\<lambda>s c. if raised s \<noteq> None then s else g s c"
  have first: "follows w st (f st c) (g st c)"
    using Cons.prems by simp
  show ?case
  proof (cases "raised (f st c)")
    case None
    then have eq: "f st c = g st c" using first by (auto simp: follows_def)
    have rest: "follows w (f st c) (foldl ?F (f st c) cs) (foldl ?G (f st c) cs)"
    proof (rule Cons.IH)
      show "follows w s (f s c') (g s c')" if "c' \<in> set cs" "raised s = None" for s c'
        using that Cons.prems(1) by simp
      show "raised (f st c) = None" by (rule None)
    qed
    have first': "follows w st (f st c) (f st c)" using first eq by simp
    have "follows w st (foldl ?F (f st c) cs) (foldl ?G (f st c) cs)"
      by (rule follows_trans[OF first' None rest])
    then show ?thesis using Cons.prems(2) eq by simp
  next
    case (Some ex)
    have stay: "foldl ?F (f st c) cs = f st c"
      by (rule skip_raised) (simp add: Some)
    show ?thesis
    proof (cases ex)
      case (External x)
      then show ?thesis
        using first Some stay Cons.prems(2) by (simp add: follows_def)
    next
      case (Internal p)
      then have gi: "raised (g st c) = Some (Internal p)"
        using first Some by (simp add: follows_def)
      have "foldl ?G (g st c) cs = g st c"
        by (rule skip_raised) (simp add: gi)
      then show ?thesis
        using first Some stay Cons.prems(2) by simp
    qed
  qed
qed

lemma leave_file_follows:
  assumes "follows w st b b0"
  shows "follows w st (leave_file w n b) (leave_file (hush w) n b0)"
proof (cases "raised b")
  case None
  then have eq: "b = b0" using assms by (auto simp: follows_def)
  have rest: "follows w b (perform w [EClose n] b) (perform (hush w) [EClose n] b)"
    by (rule perform_follows[OF None])
  have first: "follows w st b b" using assms eq by simp
  have "follows w st (perform w [EClose n] b) (perform (hush w) [EClose n] b)"
    by (rule follows_trans[OF first None rest])
  then show ?thesis using None eq by (simp add: leave_file_def)
next
  case (Some ex)
  show ?thesis
  proof (cases ex)
    case (External x)
    then show ?thesis
      using assms Some
      by (auto simp: leave_file_def follows_def record_event_def failure_free_def nth_append)
  next
    case (Internal p)
    from assms Some Internal obtain m where m: "raised b0 = Some (Internal p)"
        "length (trace st) \<le> m" "m \<le> length (trace b)"
        "failure_free w (trace b) (length (trace st)) m" "unwinding (trace b) m"
      by (auto elim: follows_Internal)
    have pre: "\<exists>evs. trace b = trace st @ evs" using assms by (simp add: follows_def)
    have "follows w st (record_event (EClose n) b) (record_event (EClose n) b0)"
      by (rule follows_InternalI[where m = m and p = p])
        (use m pre Some Internal in
          \<open>auto simp: record_event_def unwinding_close failure_free_longer\<close>)
    then show ?thesis using Some m(1) by (simp add: leave_file_def)
  qed
qed

lemma elements_hush: "elements (hush w) c = elements w c"
  by (simp add: elements_def hush_def)

lemma bind_facts: "raised (bind x v s) = raised s" "trace (bind x v s) = trace s"
  by (simp_all add: bind_def)

lemma follows_external:
  "follows w st a b \<Longrightarrow> raised a = Some (External x) \<Longrightarrow> follows w st a b'"
  by (simp add: follows_def)

lemma follows_bind: "follows w st s s0 \<Longrightarrow> follows w st (bind x v s) (bind x v s0)"
  by (auto simp: follows_def bind_def split: option.splits exn.splits)

lemma follows_raise:
  assumes "follows w st s s" and "raised s = None"
  shows "follows w st (raise (Internal p) s) (raise (Internal p) s)"
  by (rule follows_InternalI[where m = "length (trace s)" and p = p])
    (use assms in \<open>auto simp: raise_def unwinding_end follows_def\<close>)

lemma fold_follows_from:
  assumes start: "follows w st p p0"
    and step: "\<And>s c. c \<in> set cs \<Longrightarrow> raised s = None \<Longrightarrow> follows w s (f s c) (g s c)"
  shows "follows w st (foldl (\<lambda>s c. if raised s \<noteq> None then s else f s c) p cs)
                      (foldl (\<lambda>s c. if raised s \<noteq> None then s else g s c) p0 cs)"
proof (cases "raised p")
  case None
  then have eq: "p = p0" using start by (auto simp: follows_def)
  have rest: "follows w p (foldl (\<lambda>s c. if raised s \<noteq> None then s else f s c) p cs)
                          (foldl (\<lambda>s c. if raised s \<noteq> None then s else g s c) p cs)"
    by (rule fold_follows[OF step None])
  have first: "follows w st p p" using start eq by simp
  show ?thesis
    using follows_trans[OF first None rest] eq by simp
next
  case (Some ex)
  have stay: "foldl (\<lambda>s c. if raised s \<noteq> None then s else f s c) p cs = p"
    by (rule skip_raised) (simp add: Some)
  show ?thesis
  proof (cases ex)
    case (External x)
    then show ?thesis
      unfolding stay using follows_external[OF start] Some by simp
  next
    case (Internal q)
    then have r0: "raised p0 = Some (Internal q)"
      using start Some by (simp add: follows_def)
    have "foldl (\<lambda>s c. if raised s \<noteq> None then s else g s c) p0 cs = p0"
      by (rule skip_raised) (simp add: r0)
    then show ?thesis unfolding stay using start by simp
  qed
qed

text \<open>A step that yields a value or raises, and what is done with the value.\<close>

lemma value_follows:
  assumes F: "follows w st (fst p) (fst p0)"
    and E: "raised (fst p) = None \<longrightarrow> p = p0"
    and i1: "snd p = None \<longleftrightarrow> raised (fst p) \<noteq> None"
    and i0: "snd p0 = None \<longleftrightarrow> raised (fst p0) \<noteq> None"
    and K: "\<And>s v. follows w st s s \<Longrightarrow> raised s = None \<Longrightarrow> follows w st (k s v) (k0 s v)"
  shows "follows w st (case p of (s, None) \<Rightarrow> s | (s, Some v) \<Rightarrow> k s v)
                      (case p0 of (s, None) \<Rightarrow> s | (s, Some v) \<Rightarrow> k0 s v)"
proof (cases "raised (fst p)")
  case None
  then have eq: "p = p0" using E by simp
  obtain s v where p: "p = (s, Some v)" using None i1 by (cases p) auto
  have "follows w st s s" using F p unfolding eq[symmetric] by simp
  moreover have "raised s = None" using None p by simp
  ultimately have "follows w st (k s v) (k0 s v)" by (rule K)
  then show ?thesis unfolding eq[symmetric] p by simp
next
  case (Some ex)
  then obtain s where p: "p = (s, None)" using i1 by (cases p) auto
  show ?thesis
  proof (cases ex)
    case (External x)
    then show ?thesis using follows_external[OF F] Some p by simp
  next
    case (Internal q)
    then have "raised (fst p0) = Some (Internal q)" using F Some by (simp add: follows_def)
    then obtain s0 where "p0 = (s0, None)" using i0 by (cases p0) auto
    then show ?thesis using F p by simp
  qed
qed

lemma import_follows:
  assumes r: "raised st = None"
    and K: "\<And>s v. follows w st s s \<Longrightarrow> raised s = None \<Longrightarrow> follows w st (k s v) (k0 s v)"
  shows "follows w st
           (case finish r0 (perform w evs st) of (s, None) \<Rightarrow> s | (s, Some v) \<Rightarrow> k s v)
           (case finish r0 (perform (hush w) evs st) of (s, None) \<Rightarrow> s | (s, Some v) \<Rightarrow> k0 s v)"
  using finish_follows[OF perform_follows[OF r, where w = w and evs = evs], where r = r0]
  by (intro value_follows K) (simp_all add: finish_None_iff)

lemma evaluated_follows:
  assumes r: "raised st = None"
    and K: "\<And>s v. follows w st s s \<Longrightarrow> raised s = None \<Longrightarrow> follows w st (k s v) (k0 s v)"
  shows "follows w st
           (case evaluate w e st of (s, None) \<Rightarrow> s | (s, Some v) \<Rightarrow> k s v)
           (case evaluate (hush w) e st of (s, None) \<Rightarrow> s | (s, Some v) \<Rightarrow> k0 s v)"
  using evaluate_follows[OF r, of w e]
  by (intro value_follows K) (simp_all add: evaluate_None_iff)

lemma binding_facts:
  "raised (foldl (\<lambda>s n. binding s n m) s ns) = raised s"
  "trace (foldl (\<lambda>s n. binding s n m) s ns) = trace s"
  by (induction ns arbitrary: s) (simp_all add: binding_def bind_def)

lemma follows_keep:
  assumes "follows w st s s" and "raised s' = raised s" and "trace s' = trace s"
  shows "follows w st s' s'"
  using assms by (auto simp: follows_def split: option.splits exn.splits)

lemma body_follows:
  assumes IH: "\<And>c s. c \<in> set body \<Longrightarrow> raised s = None \<Longrightarrow> follows w s (exec w s c) (exec (hush w) s c)"
    and s: "follows w st s s"
  shows "follows w st (foldl (\<lambda>s c. if raised s \<noteq> None then s else exec w s c) s body)
                      (foldl (\<lambda>s c. if raised s \<noteq> None then s else exec (hush w) s c) s body)"
  by (rule fold_follows_from[OF s]) (rule IH)

lemma exec_follows:
  "raised st = None \<Longrightarrow> follows w st (exec w st s) (exec (hush w) st s)"
proof (induction s arbitrary: st)
  case (Import m a)
  show ?case
    unfolding exec.simps
    by (rule import_follows[OF Import]) (rule follows_bind)
next
  case (ImportFrom m ns)
  show ?case
    unfolding exec.simps
    by (rule import_follows[OF ImportFrom]) (rule follows_keep, assumption, simp_all add: binding_facts)
next
  case (Assign t e)
  show ?case
  proof (cases t)
    case (Name x)
    show ?thesis
      unfolding Name exec.simps
      by (rule evaluated_follows[OF Assign]) (rule follows_bind)
  qed (simp_all add: follows_raise[OF follows_refl[OF Assign] Assign])
next
  case (Expr e)
  show ?case
    using evaluate_follows[OF Expr] by simp
next
  case (With e x body)
  have r: "raised st = None" by (rule With.prems)
  have IH: "\<And>c s. c \<in> set body \<Longrightarrow> raised s = None \<Longrightarrow> follows w s (exec w s c) (exec (hush w) s c)"
    by (rule With.IH)
  have K: "follows w st
             (case v of VFile n m \<Rightarrow>
                leave_file w n
                  (foldl (\<lambda>s c. if raised s \<noteq> None then s else exec w s c)
                     (case x of None \<Rightarrow> s | Some y \<Rightarrow> bind y (VFile n m) s) body)
              | _ \<Rightarrow> raise (Internal Unsupported) s)
             (case v of VFile n m \<Rightarrow>
                leave_file (hush w) n
                  (foldl (\<lambda>s c. if raised s \<noteq> None then s else exec (hush w) s c)
                     (case x of None \<Rightarrow> s | Some y \<Rightarrow> bind y (VFile n m) s) body)
              | _ \<Rightarrow> raise (Internal Unsupported) s)"
    if s: "follows w st s s" and rs: "raised s = None" for s v
  proof (cases v)
    case (VFile n m)
    define s' where "s' = (case x of None \<Rightarrow> s | Some y \<Rightarrow> bind y (VFile n m) s)"
    have k: "raised s' = raised s" "trace s' = trace s"
      by (simp_all add: s'_def bind_facts split: option.splits)
    have here: "follows w s' s' s'" using k rs by (simp add: follows_refl)
    have body: "follows w s' (foldl (\<lambda>s c. if raised s \<noteq> None then s else exec w s c) s' body)
                            (foldl (\<lambda>s c. if raised s \<noteq> None then s else exec (hush w) s c) s' body)"
      by (rule body_follows[OF IH here])
    have "follows w s' (leave_file w n (foldl (\<lambda>s c. if raised s \<noteq> None then s else exec w s c) s' body))
                       (leave_file (hush w) n (foldl (\<lambda>s c. if raised s \<noteq> None then s else exec (hush w) s c) s' body))"
      by (rule leave_file_follows[OF body])
    then have "follows w s (leave_file w n (foldl (\<lambda>s c. if raised s \<noteq> None then s else exec w s c) s' body))
                       (leave_file (hush w) n (foldl (\<lambda>s c. if raised s \<noteq> None then s else exec (hush w) s c) s' body))"
      by (rule follows_same_trace) (simp add: k)
    from follows_trans[OF s rs this] show ?thesis
      unfolding VFile s'_def by simp
  qed (simp_all add: follows_raise[OF s rs])
  have "follows w st
     (case evaluate w e st of (s, None) \<Rightarrow> s
      | (s, Some v) \<Rightarrow>
          (case v of VFile n m \<Rightarrow>
                leave_file w n
                  (foldl (\<lambda>s c. if raised s \<noteq> None then s else exec w s c)
                     (case x of None \<Rightarrow> s | Some y \<Rightarrow> bind y (VFile n m) s) body)
              | _ \<Rightarrow> raise (Internal Unsupported) s))
     (case evaluate (hush w) e st of (s, None) \<Rightarrow> s
      | (s, Some v) \<Rightarrow>
          (case v of VFile n m \<Rightarrow>
                leave_file (hush w) n
                  (foldl (\<lambda>s c. if raised s \<noteq> None then s else exec (hush w) s c)
                     (case x of None \<Rightarrow> s | Some y \<Rightarrow> bind y (VFile n m) s) body)
              | _ \<Rightarrow> raise (Internal Unsupported) s))"
    by (rule evaluated_follows[OF r]) (rule K)
  then show ?case
    by (simp split: prod.splits option.splits val.splits)
next
  case (For x e body)
  have r: "raised st = None" by (rule For.prems)
  have IH: "\<And>c s. c \<in> set body \<Longrightarrow> raised s = None \<Longrightarrow> follows w s (exec w s c) (exec (hush w) s c)"
    by (rule For.IH)
  have K: "follows w st
             (case elements w c of
                None \<Rightarrow> raise (Internal TypeError) s
              | Some (evs, vs) \<Rightarrow>
                  foldl (\<lambda>s v. if raised s \<noteq> None then s
                               else foldl (\<lambda>s c. if raised s \<noteq> None then s else exec w s c)
                                      (bind x v s) body)
                    (perform w evs s) vs)
             (case elements (hush w) c of
                None \<Rightarrow> raise (Internal TypeError) s
              | Some (evs, vs) \<Rightarrow>
                  foldl (\<lambda>s v. if raised s \<noteq> None then s
                               else foldl (\<lambda>s c. if raised s \<noteq> None then s else exec (hush w) s c)
                                      (bind x v s) body)
                    (perform (hush w) evs s) vs)"
    if s: "follows w st s s" and rs: "raised s = None" for s c
  proof (cases "elements w c")
    case None
    then show ?thesis by (simp add: elements_hush follows_raise[OF s rs])
  next
    case (Some p)
    obtain evs vs where p: "p = (evs, vs)" by (cases p)
    have start: "follows w s (perform w evs s) (perform (hush w) evs s)"
      by (rule perform_follows[OF rs])
    have step: "follows w t (foldl (\<lambda>s c. if raised s \<noteq> None then s else exec w s c) (bind x v t) body)
                            (foldl (\<lambda>s c. if raised s \<noteq> None then s else exec (hush w) s c) (bind x v t) body)"
      if rt: "raised t = None" for t v
    proof -
      have here: "follows w (bind x v t) (bind x v t) (bind x v t)"
        using rt by (simp add: follows_refl bind_facts)
      have "follows w (bind x v t)
               (foldl (\<lambda>s c. if raised s \<noteq> None then s else exec w s c) (bind x v t) body)
               (foldl (\<lambda>s c. if raised s \<noteq> None then s else exec (hush w) s c) (bind x v t) body)"
        by (rule body_follows[OF IH here])
      then show ?thesis by (rule follows_same_trace) (simp add: bind_facts)
    qed
    have "follows w s
            (foldl (\<lambda>s v. if raised s \<noteq> None then s
                          else foldl (\<lambda>s c. if raised s \<noteq> None then s else exec w s c) (bind x v s) body)
               (perform w evs s) vs)
            (foldl (\<lambda>s v. if raised s \<noteq> None then s
                          else foldl (\<lambda>s c. if raised s \<noteq> None then s else exec (hush w) s c) (bind x v s) body)
               (perform (hush w) evs s) vs)"
      by (rule fold_follows_from[OF start]) (rule step)
    from follows_trans[OF s rs this] show ?thesis
      by (simp add: elements_hush Some p)
  qed
  show ?case
    unfolding exec.simps
    by (rule evaluated_follows[OF r]) (rule K)
qed (simp_all add: follows_raise follows_refl)

lemma block_follows:
  "raised st = None \<Longrightarrow> follows w st (exec_block w st ss) (exec_block (hush w) st ss)"
  unfolding exec_block_def
  by (rule fold_follows_from[OF follows_refl]) (simp, rule exec_follows)

lemma quiet_hush:
  assumes "\<And>v. \<not> absent w v"
  shows "quiet (hush w)"
  using assms by (simp add: quiet_def hush_def)

lemma run_faithful: "faithful w (run w notebook) (run (hush w) notebook)"
proof -
  have f: "follows w initial (run w notebook) (run (hush w) notebook)"
    unfolding run_def by (rule block_follows) (simp add: initial_def)
  have t: "length (trace (initial :: 'a state)) = 0" by (simp add: initial_def)
  show ?thesis
  proof (cases "raised (run w notebook)")
    case None
    have "failure_free w (trace (run w notebook)) (length (trace (initial :: 'a state)))
        (length (trace (run w notebook)))"
      by (rule follows_None[OF f None])
    then show ?thesis using None by (simp add: faithful_def t)
  next
    case (Some ex)
    show ?thesis
    proof (cases ex)
      case (External x)
      then show ?thesis using f t Some by (auto simp: follows_def faithful_def)
    next
      case (Internal p)
      from f Some Internal obtain m where m: "raised (run (hush w) notebook) = Some (Internal p)"
          "m \<le> length (trace (run w notebook))"
          "failure_free w (trace (run w notebook)) (length (trace (initial :: 'a state))) m"
          "unwinding (trace (run w notebook)) m"
        by (auto elim: follows_Internal)
      have "\<exists>v. absent w v"
      proof (rule ccontr)
        assume "\<not> (\<exists>v. absent w v)"
        then have "quiet (hush w)" by (intro quiet_hush) simp
        then have "raised (run (hush w) notebook) = None" by (simp add: quiet_run)
        then show False using m(1) by simp
      qed
      then show ?thesis using Some Internal m t by (auto simp: faithful_def)
    qed
  qed
qed

lemma offline_run_raises: "raised (run offline notebook) = Some (External ''DeviceOffline'')"
  by code_simp

text \<open>
  The notebook's own error is reachable: when every task has failed and \<^verbatim>\<open>result()\<close>
  hands back \<^verbatim>\<open>None\<close>, reading \<^verbatim>\<open>sdk_result.measurement_counts\<close> is an
  \<^verbatim>\<open>AttributeError\<close>, raised by Python and by no library.
\<close>

lemma failed_tasks_run_raises:
  "raised (run failed_tasks notebook) = Some (Internal AttributeError)"
  by code_simp

text \<open>
  C4. The notebook has no \<^verbatim>\<open>if\<close>, \<^verbatim>\<open>while\<close>, \<^verbatim>\<open>try\<close>, \<^verbatim>\<open>raise\<close> or \<^verbatim>\<open>assert\<close> statement,
  and every read of a program text hands it on unchanged, so the code checks nothing
  about a payload and handles no exception. In every world, whatever the library calls
  do there, the run is faithful: it ends normally only if no library call failed; if a
  library call failed, it ends with exactly the error of the first one that did; and it
  ends with a Python error of the notebook's own only if a library handed back
  \<^verbatim>\<open>None\<close>, no library call before that error failed, and the run without any failure
  ends with the same error.
\<close>

theorem errors_propagate:
  "filter (\<lambda>k. k \<in> {KIf, KWhile, KTry, KRaise, KAssert}) (stmt_kinds notebook) = []
   \<and> text_reads notebook = texts_handed_on notebook
   \<and> faithful w (run w notebook) (run (hush w) notebook)"
proof -
  have "filter (\<lambda>k. k \<in> {KIf, KWhile, KTry, KRaise, KAssert}) (stmt_kinds notebook) = []"
    by (simp add: stmt_kinds_def all_stmts_def top_level_def notebook_def cell_defs)
  then show ?thesis
    by (simp add: notebook_text_reads notebook_texts_handed_on run_faithful)
qed

theorem errors_propagate_witness:
  "raised (run offline notebook) = Some (External ''DeviceOffline'')
   \<and> (\<exists>n < length (trace (run offline notebook)).
         raises offline n (trace (run offline notebook) ! n) = Some ''DeviceOffline''
         \<and> failure_free offline (trace (run offline notebook)) 0 n)"
  using errors_propagate[of offline] offline_run_raises
  by (simp add: faithful_def)
end
